theory Spec2Isabelle
  imports Main
begin

section \<open>Strings as the code uses them\<close>

text \<open>
  A JavaScript string is modelled as \<^typ>\<open>string\<close>. The code only cuts strings at the
  ASCII character \<^verbatim>\<open>'-'\<close>, keeps ASCII digits and compares whole strings, which reads
  the same on bytes as on UTF-16 code units.
\<close>

text \<open>
  \<^verbatim>\<open>String.prototype.split\<close> with a one-character separator: the string is cut at every
  occurrence of the separator, empty pieces are kept, and the result always has at least
  one element (\<^verbatim>\<open>"".split('-')\<close> is \<^verbatim>\<open>[""]\<close>).
\<close>

fun split_on :: "char \<Rightarrow> string \<Rightarrow> string list" where
  "split_on c [] = [[]]"
| "split_on c (x # xs) =
     (if x = c then [] # split_on c xs
      else (case split_on c xs of
              [] \<Rightarrow> [[x]]
            | p # ps \<Rightarrow> (x # p) # ps))"

text \<open>\<^verbatim>\<open>cpf.replace(/\D/g, '')\<close>: every character that is not one of \<^verbatim>\<open>0\<close>..\<^verbatim>\<open>9\<close> is
  removed.\<close>

definition is_digit :: "char \<Rightarrow> bool" where
  "is_digit c = (c \<in> set ''0123456789'')"

definition strip_non_digits :: "string \<Rightarrow> string" where
  "strip_non_digits s = filter is_digit s"

section \<open>Time values and calendar dates\<close>

text \<open>
  A \<^verbatim>\<open>Date\<close> object holds a time value: milliseconds since 1970-01-01T00:00Z. The
  calendar functions below are the abstract operations of the language standard
  (Day, TimeWithinDay, DayFromYear, DaysInYear, MakeDay, LocalTime, UTC), over unbounded
  integers. A value of a \<^verbatim>\<open>DATE\<close> column, which the store returns as
  \<^verbatim>\<open>'YYYY-MM-DD'\<close>, is a record of its three numbers.
\<close>

type_synonym time = int

definition msPerDay :: int where
  "msPerDay = 1000 * 60 * 60 * 24"

record date =
  year :: int
  month :: int    \<comment> \<open>1 .. 12, as written in the string\<close>
  day :: int

definition DayFromYear :: "int \<Rightarrow> int" where
  "DayFromYear y =
     365 * (y - 1970) + (y - 1969) div 4 - (y - 1901) div 100 + (y - 1601) div 400"

definition InLeapYear :: "int \<Rightarrow> bool" where
  "InLeapYear y = (y mod 4 = 0 \<and> (y mod 100 \<noteq> 0 \<or> y mod 400 = 0))"

definition DaysInYear :: "int \<Rightarrow> int" where
  "DaysInYear y = (if InLeapYear y then 366 else 365)"

text \<open>Months are numbered from 0 inside the time functions, as \<^verbatim>\<open>getMonth\<close> does.\<close>

definition DaysInMonth :: "int \<Rightarrow> nat \<Rightarrow> int" where
  "DaysInMonth y m =
     (if m = 1 then (if InLeapYear y then 29 else 28)
      else if m = 3 \<or> m = 5 \<or> m = 8 \<or> m = 10 then 30 else 31)"

fun DaysBeforeMonth :: "int \<Rightarrow> nat \<Rightarrow> int" where
  "DaysBeforeMonth y 0 = 0"
| "DaysBeforeMonth y (Suc m) = DaysBeforeMonth y m + DaysInMonth y m"

text \<open>MakeDay(year, month, date): the month may lie outside 0..11 and carries into the
  year; the date may lie outside the month and is simply added as a number of days.\<close>

definition MakeDay :: "int \<Rightarrow> int \<Rightarrow> int \<Rightarrow> int" where
  "MakeDay yr mon dt =
     (let ym = yr + mon div 12; mn = nat (mon mod 12)
      in DayFromYear ym + DaysBeforeMonth ym mn + dt - 1)"

definition Day :: "time \<Rightarrow> int" where
  "Day t = t div msPerDay"

definition TimeWithinDay :: "time \<Rightarrow> int" where
  "TimeWithinDay t = t mod msPerDay"

text \<open>
  The local time zone of the runtime is a parameter: the offset of local time from UTC, in
  milliseconds, as the standard's LocalTZA gives it. \<open>offset_at_utc z t\<close> is the offset in
  force at the instant \<open>t\<close> (a UTC time value); \<open>offset_at_local z t\<close> is the offset in force
  at the local time value \<open>t\<close> (a skipped or repeated local time is read with the offset
  from before the change). In a zone with daylight-saving time the two change with \<open>t\<close>.
\<close>

record zone =
  offset_at_utc :: "time \<Rightarrow> int"
  offset_at_local :: "time \<Rightarrow> int"

definition LocalTime :: "zone \<Rightarrow> time \<Rightarrow> time" where
  "LocalTime z t = t + offset_at_utc z t"

definition UTC :: "zone \<Rightarrow> time \<Rightarrow> time" where
  "UTC z t = t - offset_at_local z t"

text \<open>A zone whose offset never changes.\<close>

definition fixed_zone :: "int \<Rightarrow> zone" where
  "fixed_zone off = \<lparr>offset_at_utc = (\<lambda>_. off), offset_at_local = (\<lambda>_. off)\<rparr>"

text \<open>Europe/Lisbon in 2024: UTC, and one hour ahead of it from 2024-03-31T01:00Z until
  2024-10-27T01:00Z (on the local clock: from 02:00 on March 31 until 02:00 on October 27).\<close>

definition Europe_Lisbon_2024 :: zone where
  "Europe_Lisbon_2024 =
     \<lparr>offset_at_utc = (\<lambda>t. if 1711846800000 \<le> t \<and> t < 1729990800000 then 3600000 else 0),
      offset_at_local = (\<lambda>t. if 1711850400000 \<le> t \<and> t < 1729994400000 then 3600000 else 0)\<rparr>"

lemma div_step:
  fixes x k :: int
  assumes "0 < k"
  shows "(x + 1) div k = x div k + (if (x + 1) mod k = 0 then 1 else 0)"
proof (cases "x mod k = k - 1")
  case True
  have "x + 1 = k * (x div k) + (x mod k + 1)" by simp
  also have "\<dots> = k * (x div k) + k" using True by simp
  finally have eq: "x + 1 = k * (x div k + 1) + 0" by (simp add: algebra_simps)
  have "(x + 1) div k = x div k + 1"
    by (rule int_div_pos_eq [OF eq]) (use assms in auto)
  moreover have "(x + 1) mod k = 0"
    by (rule int_mod_pos_eq [OF eq]) (use assms in auto)
  ultimately show ?thesis by simp
next
  case False
  have r: "0 \<le> x mod k" "x mod k < k" using assms by auto
  have "x = k * (x div k) + x mod k" by simp
  then have eq: "x + 1 = k * (x div k) + (x mod k + 1)" by simp
  have b: "0 \<le> x mod k + 1" "x mod k + 1 < k" using r False by auto
  have "(x + 1) div k = x div k"
    by (rule int_div_pos_eq [OF eq b])
  moreover have "(x + 1) mod k = x mod k + 1"
    by (rule int_mod_pos_eq [OF eq b])
  ultimately show ?thesis using r by simp
qed

lemma year_mod_facts:
  fixes y :: int
  shows "(y - 1968) mod 4 = y mod 4"
    and "(y - 1900) mod 100 = y mod 100"
    and "(y - 1600) mod 400 = y mod 400"
    and "y mod 100 = 0 \<Longrightarrow> y mod 4 = 0"
    and "y mod 400 = 0 \<Longrightarrow> y mod 100 = 0"
proof -
  have "y - 1968 = y + 4 * (-492)" by simp
  then show "(y - 1968) mod 4 = y mod 4" by (metis mod_mult_self2)
  have "y - 1900 = y + 100 * (-19)" by simp
  then show "(y - 1900) mod 100 = y mod 100" by (metis mod_mult_self2)
  have "y - 1600 = y + 400 * (-4)" by simp
  then show "(y - 1600) mod 400 = y mod 400" by (metis mod_mult_self2)
  show "y mod 100 = 0 \<Longrightarrow> y mod 4 = 0"
    using mod_mod_cancel [of 4 100 y] by simp
  show "y mod 400 = 0 \<Longrightarrow> y mod 100 = 0"
    using mod_mod_cancel [of 100 400 y] by simp
qed

text \<open>A year is 365 or 366 days long; this is what makes the two searches below stop.\<close>

lemma DayFromYear_Suc: "DayFromYear (y + 1) = DayFromYear y + DaysInYear y"
proof -
  define A where "A = (y - 1969) div 4"
  define B where "B = (y - 1901) div 100"
  define C where "C = (y - 1601) div 400"
  have a: "(y + 1 - 1969) div 4 = A + (if y mod 4 = 0 then 1 else 0)"
    using div_step [of 4 "y - 1969"] by (simp add: year_mod_facts(1) A_def)
  have b: "(y + 1 - 1901) div 100 = B + (if y mod 100 = 0 then 1 else 0)"
    using div_step [of 100 "y - 1901"] by (simp add: year_mod_facts(2) B_def)
  have c: "(y + 1 - 1601) div 400 = C + (if y mod 400 = 0 then 1 else 0)"
    using div_step [of 400 "y - 1601"] by (simp add: year_mod_facts(3) C_def)
  have l: "DayFromYear (y + 1) = 365 * (y + 1 - 1970) + (A + (if y mod 4 = 0 then 1 else 0))
      - (B + (if y mod 100 = 0 then 1 else 0)) + (C + (if y mod 400 = 0 then 1 else 0))"
    by (simp only: DayFromYear_def a b c)
  have r: "DayFromYear y = 365 * (y - 1970) + A - B + C"
    by (simp only: DayFromYear_def A_def B_def C_def)
  have m4: "y mod 100 = 0 \<Longrightarrow> y mod 4 = 0" by (rule year_mod_facts(4))
  have m100: "y mod 400 = 0 \<Longrightarrow> y mod 100 = 0" by (rule year_mod_facts(5))
  show ?thesis
  proof (cases "y mod 400 = 0")
    case True
    with m100 m4 show ?thesis
      by (simp only: l r DaysInYear_def InLeapYear_def) simp
  next
    case n400: False
    show ?thesis
    proof (cases "y mod 100 = 0")
      case True
      with n400 m4 show ?thesis
        by (simp only: l r DaysInYear_def InLeapYear_def) simp
    next
      case n100: False
      show ?thesis
      proof (cases "y mod 4 = 0")
        case True
        with n400 n100 show ?thesis
          by (simp only: l r DaysInYear_def InLeapYear_def) simp
      next
        case False
        with n400 n100 show ?thesis
          by (simp only: l r DaysInYear_def InLeapYear_def) simp
      qed
    qed
  qed
qed

lemma DaysInYear_bounds: "365 \<le> DaysInYear y" "DaysInYear y \<le> 366"
  by (simp_all add: DaysInYear_def)

lemma DayFromYear_pred: "DayFromYear (y - 1) = DayFromYear y - DaysInYear (y - 1)"
  using DayFromYear_Suc [of "y - 1"] by simp

text \<open>YearFromTime is "the largest year whose first day is not after the day": found by
  stepping down, then up, from an estimate.\<close>

function year_down :: "int \<Rightarrow> int \<Rightarrow> int" where
  "year_down n y = (if n < DayFromYear y then year_down n (y - 1) else y)"
  by pat_completeness auto

termination
proof (relation "measure (\<lambda>(n, y). nat (DayFromYear y - n))")
  show "wf (measure (\<lambda>(n, y). nat (DayFromYear y - n)))" by simp
next
  fix n y :: int
  assume "n < DayFromYear y"
  then show "((n, y - 1), (n, y)) \<in> measure (\<lambda>(n, y). nat (DayFromYear y - n))"
    using DaysInYear_bounds(1) [of "y - 1"] by (simp add: DayFromYear_pred)
qed

function year_up :: "int \<Rightarrow> int \<Rightarrow> int" where
  "year_up n y = (if DayFromYear (y + 1) \<le> n then year_up n (y + 1) else y)"
  by pat_completeness auto

termination
proof (relation "measure (\<lambda>(n, y). nat (n - DayFromYear y))")
  show "wf (measure (\<lambda>(n, y). nat (n - DayFromYear y)))" by simp
next
  fix n y :: int
  assume "DayFromYear (y + 1) \<le> n"
  then show "((n, y + 1), (n, y)) \<in> measure (\<lambda>(n, y). nat (n - DayFromYear y))"
    using DaysInYear_bounds(1) [of y] by (simp add: DayFromYear_Suc)
qed

declare year_down.simps [simp del] year_up.simps [simp del]

definition YearFromDay :: "int \<Rightarrow> int" where
  "YearFromDay n = year_up n (year_down n (1970 + n div 365))"

text \<open>MonthFromTime and DateFromTime: walk through the months of the year.\<close>

function month_from :: "int \<Rightarrow> int \<Rightarrow> nat \<Rightarrow> nat \<times> int" where
  "month_from y r m =
     (if m < 11 \<and> DaysInMonth y m \<le> r then month_from y (r - DaysInMonth y m) (Suc m)
      else (m, r))"
  by pat_completeness auto

termination
  by (relation "measure (\<lambda>(y, r, m). 11 - m)") auto

declare month_from.simps [simp del]

definition civil_from_days :: "int \<Rightarrow> date" where
  "civil_from_days n =
     (let y = YearFromDay n in
      case month_from y (n - DayFromYear y) 0 of
        (m, r) \<Rightarrow> \<lparr>year = y, month = int m + 1, day = r + 1\<rparr>)"

definition valid_date :: "date \<Rightarrow> bool" where
  "valid_date d = (1 \<le> month d \<and> month d \<le> 12 \<and> 1 \<le> day d
      \<and> day d \<le> DaysInMonth (year d) (nat (month d - 1)))"

text \<open>\<^verbatim>\<open>new Date('YYYY-MM-DD')\<close>: a date-only string is read as midnight UTC.\<close>

definition Date_parse :: "date \<Rightarrow> time" where
  "Date_parse d = MakeDay (year d) (month d - 1) (day d) * msPerDay"

text \<open>\<^verbatim>\<open>getMonth()\<close> and \<^verbatim>\<open>setMonth(m)\<close> work on local time; \<^verbatim>\<open>setMonth\<close> keeps the local
  day of the month and the local time of day, and goes back to UTC with the offset in force
  at the new local time.\<close>

definition getMonth :: "zone \<Rightarrow> time \<Rightarrow> int" where
  "getMonth z t = month (civil_from_days (Day (LocalTime z t))) - 1"

definition setMonth :: "zone \<Rightarrow> time \<Rightarrow> int \<Rightarrow> time" where
  "setMonth z t mon =
     (let lt = LocalTime z t; c = civil_from_days (Day lt)
      in UTC z (MakeDay (year c) mon (day c) * msPerDay + TimeWithinDay lt))"

text \<open>\<^verbatim>\<open>toISOString().split('T')[0]\<close>: the UTC calendar date of the time value.\<close>

definition toISODate :: "time \<Rightarrow> date" where
  "toISODate t = civil_from_days (Day t)"

text \<open>\<^verbatim>\<open>Math.ceil(a / b)\<close> for integers \<open>a\<close> and a positive \<open>b\<close>, computed exactly.\<close>

definition ceil_div :: "int \<Rightarrow> int \<Rightarrow> int" where
  "ceil_div a b = - ((- a) div b)"

section \<open>The check-in code (CheckIn page and StudentCheckIn page)\<close>

datatype error =
    InvalidQR          \<comment> \<open>the message: QR Code invalido\<close>
  | StudentNotFound    \<comment> \<open>Aluno nao encontrado\<close>
  | NoActivePlan       \<comment> \<open>Aluno sem plano ativo\<close>
  | PlanExpired        \<comment> \<open>Plano expirado\<close>
  | PlanNotActive      \<comment> \<open>student page: Seu plano nao esta ativo\<close>
  | StoreError         \<comment> \<open>an error object returned by the remote store and re-thrown\<close>
  | NullRead           \<comment> \<open>the TypeError of reading a property of \<^verbatim>\<open>null\<close>, caught by the handler\<close>

text \<open>\<^verbatim>\<open>generateStudentQR\<close> (CheckIn page), \<^verbatim>\<open>generateQRCode\<close> (StudentCheckIn page) and the
  camera callback all build the code by the same template string.\<close>

definition generateStudentQR :: "string \<Rightarrow> string" where
  "generateStudentQR studentId = ''KGYM-CHECKIN-'' @ studentId"

text \<open>The first statements of \<^verbatim>\<open>processCheckIn\<close> on the CheckIn page: split the code on
  \<^verbatim>\<open>'-'\<close>, insist on exactly three parts with the two fixed ones, take the third as id.
  (\<^verbatim>\<open>||\<close> evaluates left to right, so the parts are only read when there are three.)\<close>

definition extract_student_id :: "string \<Rightarrow> error + string" where
  "extract_student_id qrCode =
     (let parts = split_on CHR ''-'' qrCode in
      if length parts \<noteq> 3 \<or> parts ! 0 \<noteq> ''KGYM'' \<or> parts ! 1 \<noteq> ''CHECKIN''
      then Inl InvalidQR
      else Inr (parts ! 2))"

section \<open>The remote store\<close>

text \<open>
  The rows of the four tables the membership rules read and write. Columns no modelled
  operation reads (\<^verbatim>\<open>updated_at\<close>, a plan's price and description, ...) are left out.
  Ids are the store's UUID strings.
\<close>

record profile =
  p_id :: string
  p_user_id :: string
  p_full_name :: string
  p_cpf :: "string option"
  p_role :: string
  p_face_encoding :: "string option"

record plan =
  pl_id :: string
  pl_name :: string
  pl_duration_months :: int
  pl_is_active :: bool

record student_plan =
  sp_id :: string
  sp_student_id :: string
  sp_plan_id :: string
  sp_start_date :: date
  sp_end_date :: date
  sp_status :: string
  sp_created_at :: time

record check_in =
  ci_id :: string
  ci_student_id :: string
  ci_check_in_time :: time

datatype table = Profiles | Plans | StudentPlans | CheckIns | WorkoutSheets | Exercises

datatype verb = SELECT | INSERT | UPDATE | DELETE

type_synonym request = "table \<times> verb"

text \<open>The state of the store, together with the log of the requests the application has
  sent to it (\<^verbatim>\<open>supabase.from(table).verb(...)\<close>), oldest first.\<close>

record store =
  profiles :: "profile list"
  plans :: "plan list"
  student_plans :: "student_plan list"
  check_ins :: "check_in list"
  issued :: "request list"

text \<open>
  What one handler run gets from outside: which requests the store answers with an error
  object (network, permissions), the readings of the clock (\<open>called\<close> when the handler
  starts, \<open>today\<close> at the expiry test, \<open>stamp\<close> when the row is built), and the id the store
  gives to a row it inserts.
\<close>

record env =
  rejects :: "request \<Rightarrow> bool"
  called :: time
  today :: time
  stamp :: time
  fresh_id :: string


definition send :: "request \<Rightarrow> store \<Rightarrow> store" where
  "send r s = s\<lparr>issued := issued s @ [r]\<rparr>"

text \<open>\<^verbatim>\<open>.single()\<close>: the one row of the answer; an error when there is none or several.\<close>

fun single :: "'a list \<Rightarrow> 'a option" where
  "single [x] = Some x"
| "single _ = None"

section \<open>CheckIn page: \<^verbatim>\<open>processCheckIn\<close>\<close>

text \<open>The profile with the given id and role \<^verbatim>\<open>'student'\<close>, with its nested
  \<^verbatim>\<open>student_plans\<close> rows. \<^verbatim>\<open>studentError || !student\<close> is the answer \<open>None\<close>.\<close>

definition select_student ::
  "env \<Rightarrow> string \<Rightarrow> store \<Rightarrow> (profile \<times> student_plan list) option \<times> store" where
  "select_student e studentId s =
     (let s1 = send (Profiles, SELECT) s in
      if rejects e (Profiles, SELECT) then (None, s1)
      else (case single (filter (\<lambda>p. p_id p = studentId \<and> p_role p = ''student'') (profiles s)) of
              None \<Rightarrow> (None, s1)
            | Some p \<Rightarrow>
                (Some (p, filter (\<lambda>sp. sp_student_id sp = p_id p) (student_plans s)), s1)))"

definition insert_check_in :: "env \<Rightarrow> string \<Rightarrow> store \<Rightarrow> (error + unit) \<times> store" where
  "insert_check_in e studentId s =
     (let s1 = send (CheckIns, INSERT) s in
      if rejects e (CheckIns, INSERT) then (Inl StoreError, s1)
      else (Inr (), s1\<lparr>check_ins := check_ins s1 @
              [\<lparr>ci_id = fresh_id e, ci_student_id = studentId, ci_check_in_time = stamp e\<rparr>]\<rparr>))"

record last_check_in =
  lc_student_name :: string
  lc_plan_name :: "string option"

datatype outcome =
    Failed error              \<comment> \<open>the error toast\<close>
  | CheckedIn last_check_in   \<comment> \<open>the success toast\<close>
  | Skipped                   \<comment> \<open>the handler returned at once, showing nothing\<close>

definition CheckIn_processCheckIn :: "env \<Rightarrow> string \<Rightarrow> store \<Rightarrow> outcome \<times> store" where
  "CheckIn_processCheckIn e qrCode s =
     (case extract_student_id qrCode of
        Inl err \<Rightarrow> (Failed err, s)
      | Inr studentId \<Rightarrow>
          (case select_student e studentId s of
             (None, s1) \<Rightarrow> (Failed StudentNotFound, s1)
           | (Some (student, sps), s1) \<Rightarrow>
               (case find (\<lambda>sp. sp_status sp = ''active'') sps of
                  None \<Rightarrow> (Failed NoActivePlan, s1)
                | Some activePlan \<Rightarrow>
                    if Date_parse (sp_end_date activePlan) < today e
                    then (Failed PlanExpired, s1)
                    else (case insert_check_in e studentId s1 of
                            (Inl err, s2) \<Rightarrow> (Failed err, s2)
                          | (Inr _, s2) \<Rightarrow>
                              (CheckedIn \<lparr>lc_student_name = p_full_name student,
                                 lc_plan_name = map_option pl_name
                                   (find (\<lambda>p. pl_id p = sp_plan_id activePlan) (plans s))\<rparr>,
                               s2)))))"

text \<open>The camera tab hands the recognised id to the same function, wrapped as a code.\<close>

definition CheckIn_onRecognized :: "env \<Rightarrow> string \<Rightarrow> store \<Rightarrow> outcome \<times> store" where
  "CheckIn_onRecognized e studentId s = CheckIn_processCheckIn e (generateStudentQR studentId) s"

section \<open>StudentCheckIn page\<close>

text \<open>\<^verbatim>\<open>fetchStudentPlan\<close>: the signed-in student's single row with status
  \<^verbatim>\<open>'active'\<close>; the page state keeps it only when the store returned a row.\<close>

definition StudentCheckIn_fetchStudentPlan ::
  "env \<Rightarrow> profile \<Rightarrow> store \<Rightarrow> student_plan option \<times> store" where
  "StudentCheckIn_fetchStudentPlan e prof s =
     (let s1 = send (StudentPlans, SELECT) s in
      if rejects e (StudentPlans, SELECT) then (None, s1)
      else (single (filter (\<lambda>sp. sp_student_id sp = p_id prof \<and> sp_status sp = ''active'')
                      (student_plans s)), s1))"

text \<open>\<^verbatim>\<open>processCheckIn\<close> of the student page, on the profile of the session and on the page
  state: the plan row kept by \<^verbatim>\<open>fetchStudentPlan\<close> and, in \<open>joined\<close>, the \<^verbatim>\<open>plans\<close> object
  the store nested in that row (\<^verbatim>\<open>null\<close> when it returned none). Without a profile or a
  plan row the function returns at once. Its expiry message differs in wording from the
  CheckIn page's; both are \<open>PlanExpired\<close> here. After the insert the function reads
  \<^verbatim>\<open>studentPlan.plans.name\<close>: with \<^verbatim>\<open>plans\<close> null this throws, and the handler shows the
  error toast although the row is in the store.\<close>

definition StudentCheckIn_processCheckIn ::
  "env \<Rightarrow> profile option \<Rightarrow> student_plan option \<Rightarrow> plan option \<Rightarrow> store
     \<Rightarrow> outcome \<times> store" where
  "StudentCheckIn_processCheckIn e prof studentPlan joined s =
     (case (prof, studentPlan) of
        (Some p, Some sp) \<Rightarrow>
          if Date_parse (sp_end_date sp) < today e then (Failed PlanExpired, s)
          else if sp_status sp \<noteq> ''active'' then (Failed PlanNotActive, s)
          else (case insert_check_in e (p_id p) s of
                  (Inl err, s2) \<Rightarrow> (Failed err, s2)
                | (Inr _, s2) \<Rightarrow>
                    (case joined of
                       None \<Rightarrow> (Failed NullRead, s2)
                     | Some q \<Rightarrow>
                         (CheckedIn \<lparr>lc_student_name = p_full_name p,
                            lc_plan_name = Some (pl_name q)\<rparr>, s2)))
      | _ \<Rightarrow> (Skipped, s))"

section \<open>Membership status\<close>

record badge =
  status :: string
  label :: string
  variant :: string

text \<open>The two steps the four status functions share, each written out in their text:
  \<^verbatim>\<open>Math.ceil((endDate.getTime() - today.getTime()) / (1000 * 60 * 60 * 24))\<close>, computed
  exactly, and the three-way test on the result.\<close>

definition days_until :: "date \<Rightarrow> time \<Rightarrow> int" where
  "days_until endDate now = ceil_div (Date_parse endDate - now) msPerDay"

definition by_days :: "int \<Rightarrow> badge" where
  "by_days daysUntilExpiry =
     (if daysUntilExpiry \<le> 0
      then \<lparr>status = ''expired'', label = ''Expirado'', variant = ''destructive''\<rparr>
      else if daysUntilExpiry \<le> 7
      then \<lparr>status = ''expiring'', label = ''Expirando'', variant = ''outline''\<rparr>
      else \<lparr>status = ''active'', label = ''Ativo'', variant = ''default''\<rparr>)"

text \<open>Students page, \<^verbatim>\<open>getStudentStatus\<close>: on the student's nested \<^verbatim>\<open>student_plans\<close>
  (which may be missing), at the clock reading \<open>now\<close>.\<close>

definition Students_getStudentStatus :: "time \<Rightarrow> student_plan list option \<Rightarrow> badge" where
  "Students_getStudentStatus now sps =
     (case sps of
        None \<Rightarrow> \<lparr>status = ''inactive'', label = ''Sem Plano'', variant = ''secondary''\<rparr>
      | Some rows \<Rightarrow>
          if length rows = 0
          then \<lparr>status = ''inactive'', label = ''Sem Plano'', variant = ''secondary''\<rparr>
          else (case find (\<lambda>sp. sp_status sp = ''active'') rows of
                  Some activePlan \<Rightarrow> by_days (days_until (sp_end_date activePlan) now)
                | None \<Rightarrow>
                    \<lparr>status = ''inactive'', label = ''Inativo'', variant = ''secondary''\<rparr>))"

text \<open>StudentDashboard page and StudentCheckIn page, \<^verbatim>\<open>getPlanStatus\<close> (the same text in
  both): on the row their fetch kept, the single row with status \<^verbatim>\<open>'active'\<close>.\<close>

text \<open>The plan part of \<^verbatim>\<open>fetchStudentData\<close> of the dashboard: the same query as on the
  check-in page; the recent check-ins are queried after it, whatever its answer.\<close>

definition StudentDashboard_fetchStudentData ::
  "env \<Rightarrow> profile \<Rightarrow> store \<Rightarrow> student_plan option \<times> store" where
  "StudentDashboard_fetchStudentData e prof s =
     (let s1 = send (StudentPlans, SELECT) s;
          planData =
            (if rejects e (StudentPlans, SELECT) then None
             else single (filter (\<lambda>sp. sp_student_id sp = p_id prof \<and> sp_status sp = ''active'')
                            (student_plans s)))
      in (planData, send (CheckIns, SELECT) s1))"

definition StudentDashboard_getPlanStatus :: "time \<Rightarrow> student_plan option \<Rightarrow> badge" where
  "StudentDashboard_getPlanStatus now p =
     (case p of
        None \<Rightarrow> \<lparr>status = ''inactive'', label = ''Sem Plano'', variant = ''secondary''\<rparr>
      | Some row \<Rightarrow> by_days (days_until (sp_end_date row) now))"

definition StudentCheckIn_getPlanStatus :: "time \<Rightarrow> student_plan option \<Rightarrow> badge" where
  "StudentCheckIn_getPlanStatus now p =
     (case p of
        None \<Rightarrow> \<lparr>status = ''inactive'', label = ''Sem Plano'', variant = ''secondary''\<rparr>
      | Some row \<Rightarrow> by_days (days_until (sp_end_date row) now))"

text \<open>StudentPlan page: \<^verbatim>\<open>fetchStudentPlan\<close> takes the student's most recent row, whatever
  its status (\<^verbatim>\<open>order('created_at', {ascending: false})\<close>, then \<^verbatim>\<open>data?.[0]\<close>), and
  \<^verbatim>\<open>getPlanStatus\<close> looks at the stored status of that row first.\<close>

definition StudentPlan_fetchStudentPlan ::
  "env \<Rightarrow> profile \<Rightarrow> store \<Rightarrow> student_plan option \<times> store" where
  "StudentPlan_fetchStudentPlan e prof s =
     (let s1 = send (StudentPlans, SELECT) s in
      if rejects e (StudentPlans, SELECT) then (None, s1)
      else (case sort_key (\<lambda>sp. - sp_created_at sp)
                   (filter (\<lambda>sp. sp_student_id sp = p_id prof) (student_plans s)) of
              [] \<Rightarrow> (None, s1)
            | r # _ \<Rightarrow> (Some r, s1)))"

definition StudentPlan_getPlanStatus :: "time \<Rightarrow> student_plan option \<Rightarrow> badge" where
  "StudentPlan_getPlanStatus now p =
     (case p of
        None \<Rightarrow> \<lparr>status = ''inactive'', label = ''Sem Plano'', variant = ''secondary''\<rparr>
      | Some row \<Rightarrow>
          if sp_status row = ''inactive''
          then \<lparr>status = ''inactive'', label = ''Inativo'', variant = ''secondary''\<rparr>
          else if sp_status row = ''expired''
          then \<lparr>status = ''expired'', label = ''Expirado'', variant = ''destructive''\<rparr>
          else by_days (days_until (sp_end_date row) now))"

section \<open>ManageStudentPlanDialog: \<^verbatim>\<open>calculateEndDate\<close>\<close>

definition calculateEndDate :: "zone \<Rightarrow> date \<Rightarrow> int \<Rightarrow> date" where
  "calculateEndDate z startDate durationMonths =
     (let start = Date_parse startDate;
          end1 = setMonth z start (getMonth z start + durationMonths)
      in toISODate end1)"

text \<open>The two offsets such a computation meets: the one in force at 00:00 UTC of the start
  date, and the one in force at the local time \<^verbatim>\<open>setMonth\<close> builds from it (the start's day
  number in the target month, at the local time of day the first offset gives).\<close>

definition start_offset :: "zone \<Rightarrow> date \<Rightarrow> int" where
  "start_offset z startDate = offset_at_utc z (Date_parse startDate)"

definition end_offset :: "zone \<Rightarrow> date \<Rightarrow> int \<Rightarrow> int" where
  "end_offset z startDate durationMonths =
     offset_at_local z
       (MakeDay (year startDate) (month startDate - 1 + durationMonths) (day startDate) * msPerDay
        + start_offset z startDate)"

section \<open>DeletePlanDialog: \<^verbatim>\<open>handleDelete\<close>\<close>

datatype dialog_outcome =
    NotStarted          \<comment> \<open>nothing selected: the handler returns at once\<close>
  | Blocked             \<comment> \<open>the toast that the plan has active students\<close>
  | Done                \<comment> \<open>the success toast\<close>
  | Errored error       \<comment> \<open>the error toast\<close>

definition select_active_student_plans ::
  "env \<Rightarrow> string \<Rightarrow> store \<Rightarrow> (error + student_plan list) \<times> store" where
  "select_active_student_plans e planId s =
     (let s1 = send (StudentPlans, SELECT) s in
      if rejects e (StudentPlans, SELECT) then (Inl StoreError, s1)
      else (Inr (filter (\<lambda>sp. sp_plan_id sp = planId \<and> sp_status sp = ''active'')
                   (student_plans s)), s1))"

text \<open>\<^verbatim>\<open>.from('plans').delete().eq('id', id)\<close>. The migrations declare
  \<^verbatim>\<open>student_plans.plan_id REFERENCES plans(id) ON DELETE CASCADE\<close>: the store removes the
  student-plan rows that refer to a deleted plan, whatever their status.\<close>

definition delete_plan :: "env \<Rightarrow> string \<Rightarrow> store \<Rightarrow> (error + unit) \<times> store" where
  "delete_plan e planId s =
     (let s1 = send (Plans, DELETE) s in
      if rejects e (Plans, DELETE) then (Inl StoreError, s1)
      else (Inr (), s1\<lparr>plans := filter (\<lambda>p. pl_id p \<noteq> planId) (plans s1),
                       student_plans := filter (\<lambda>sp. sp_plan_id sp \<noteq> planId) (student_plans s1)\<rparr>))"

definition DeletePlanDialog_handleDelete ::
  "env \<Rightarrow> plan option \<Rightarrow> store \<Rightarrow> dialog_outcome \<times> store" where
  "DeletePlanDialog_handleDelete e selected s =
     (case selected of
        None \<Rightarrow> (NotStarted, s)
      | Some p \<Rightarrow>
          (case select_active_student_plans e (pl_id p) s of
             (Inl checkError, s1) \<Rightarrow> (Errored checkError, s1)
           | (Inr studentPlans, s1) \<Rightarrow>
               if length studentPlans > 0 then (Blocked, s1)
               else (case delete_plan e (pl_id p) s1 of
                       (Inl err, s2) \<Rightarrow> (Errored err, s2)
                     | (Inr _, s2) \<Rightarrow> (Done, s2))))"

section \<open>CheckInHistoryDialog: \<^verbatim>\<open>confirmDelete\<close>\<close>

text \<open>Deletes the selected row by id, then loads the history again.\<close>

definition CheckInHistoryDialog_confirmDelete ::
  "env \<Rightarrow> check_in option \<Rightarrow> store \<Rightarrow> dialog_outcome \<times> store" where
  "CheckInHistoryDialog_confirmDelete e selectedCheckIn s =
     (case selectedCheckIn of
        None \<Rightarrow> (NotStarted, s)
      | Some c \<Rightarrow>
          (let s1 = send (CheckIns, DELETE) s in
           if rejects e (CheckIns, DELETE) then (Errored StoreError, s1)
           else (Done, send (CheckIns, SELECT)
                   (s1\<lparr>check_ins := filter (\<lambda>r. ci_id r \<noteq> ci_id c) (check_ins s1)\<rparr>))))"

section \<open>Passwords: AddStudentDialog \<^verbatim>\<open>onSubmit\<close> and Login \<^verbatim>\<open>onStudentLogin\<close>\<close>

text \<open>The form schemas make \<^verbatim>\<open>cpf\<close> a string of at least six characters (of any kind).\<close>

record credentials =
  cr_email :: string
  cr_password :: string

definition cpf_accepted :: "string \<Rightarrow> bool" where
  "cpf_accepted cpf = (6 \<le> length cpf)"

text \<open>\<^verbatim>\<open>data.cpf?.replace(/\D/g, '').slice(0, 6) || '123456'\<close>, then the length test.\<close>

definition AddStudentDialog_password :: "string \<Rightarrow> string" where
  "AddStudentDialog_password cpf =
     (let sliced = take 6 (strip_non_digits cpf);
          cpfDigits = (if sliced = [] then ''123456'' else sliced)
      in if length cpfDigits \<ge> 6 then cpfDigits else ''123456'')"

text \<open>The argument of \<^verbatim>\<open>supabase.auth.signUp\<close> in the add-student dialog.\<close>

definition AddStudentDialog_signUp :: "string \<Rightarrow> string \<Rightarrow> credentials" where
  "AddStudentDialog_signUp email cpf =
     \<lparr>cr_email = email, cr_password = AddStudentDialog_password cpf\<rparr>"

text \<open>The argument of \<^verbatim>\<open>supabase.auth.signInWithPassword\<close> in the student login.\<close>

definition Login_onStudentLogin_signIn :: "string \<Rightarrow> string \<Rightarrow> credentials" where
  "Login_onStudentLogin_signIn email cpf =
     \<lparr>cr_email = email, cr_password = strip_non_digits cpf\<rparr>"

section \<open>FaceRecognitionCamera: \<^verbatim>\<open>performFaceRecognition\<close>\<close>

datatype face_outcome =
    FaceNotStarted               \<comment> \<open>no video or canvas element, or no drawing context\<close>
  | Recognized string string     \<comment> \<open>the id handed to \<^verbatim>\<open>onRecognized\<close>, and the name shown\<close>
  | NoFaceRecognized             \<comment> \<open>the toast that no face was recognised\<close>
  | FaceError                    \<comment> \<open>the error toast\<close>

text \<open>The frame of the camera is drawn on the canvas (\<^verbatim>\<open>ctx.drawImage(video, 0, 0)\<close>) and
  never read again; \<open>frame\<close> stands for it.\<close>

definition performFaceRecognition ::
  "env \<Rightarrow> bool \<Rightarrow> bool \<Rightarrow> 'frame \<Rightarrow> store \<Rightarrow> face_outcome \<times> store" where
  "performFaceRecognition e refs_ready ctx_ready frame s =
     (if \<not> refs_ready then (FaceNotStarted, s)
      else if \<not> ctx_ready then (FaceNotStarted, s)
      else (let s1 = send (Profiles, SELECT) s in
            if rejects e (Profiles, SELECT) then (FaceError, s1)
            else (case filter (\<lambda>p. p_face_encoding p \<noteq> None) (profiles s) of
                    [] \<Rightarrow> (NoFaceRecognized, s1)
                  | recognizedProfile # _ \<Rightarrow>
                      (Recognized (p_id recognizedProfile) (p_full_name recognizedProfile), s1))))"

section \<open>Every function of the application that calls the store\<close>

text \<open>
  The store side of every function, of the pages and dialogs under \<^verbatim>\<open>src/\<close>, whose text
  calls \<^verbatim>\<open>supabase.from(...)\<close>: the requests it sends, in their order and under the guards of
  its text, and what an accepted write does to the rows of the four tables. The
  functions modelled above are among them. Rows of \<^verbatim>\<open>workout_sheets\<close> and \<^verbatim>\<open>exercises\<close>
  are not modelled: a request to them is logged and answered. A callback a component gets
  as a prop (\<^verbatim>\<open>onSuccess\<close>, \<^verbatim>\<open>onPlanDeleted\<close>, ...) is, wherever a page under \<^verbatim>\<open>src/\<close> mounts
  the component, one of the fetch functions below: it is a run of its own. Functions that
  call the authentication provider only (sign-out, change of e-mail or password) send
  nothing to a table.
\<close>

text \<open>A request that is answered or refused, and the writes to the modelled tables.
  \<^verbatim>\<open>.update(...).eq(...)\<close> changes the rows that match; \<^verbatim>\<open>.insert(...)\<close> adds a row.\<close>

definition ask :: "env \<Rightarrow> request \<Rightarrow> store \<Rightarrow> bool \<times> store" where
  "ask e r s = (\<not> rejects e r, send r s)"

definition update_profiles ::
  "env \<Rightarrow> (profile \<Rightarrow> bool) \<Rightarrow> (profile \<Rightarrow> profile) \<Rightarrow> store \<Rightarrow> bool \<times> store" where
  "update_profiles e matching change s =
     (let s1 = send (Profiles, UPDATE) s in
      if rejects e (Profiles, UPDATE) then (False, s1)
      else (True, s1\<lparr>profiles := map (\<lambda>p. if matching p then change p else p) (profiles s1)\<rparr>))"

definition insert_profile :: "env \<Rightarrow> profile \<Rightarrow> store \<Rightarrow> bool \<times> store" where
  "insert_profile e row s =
     (let s1 = send (Profiles, INSERT) s in
      if rejects e (Profiles, INSERT) then (False, s1)
      else (True, s1\<lparr>profiles := profiles s1 @ [row]\<rparr>))"

definition update_plans ::
  "env \<Rightarrow> (plan \<Rightarrow> bool) \<Rightarrow> (plan \<Rightarrow> plan) \<Rightarrow> store \<Rightarrow> bool \<times> store" where
  "update_plans e matching change s =
     (let s1 = send (Plans, UPDATE) s in
      if rejects e (Plans, UPDATE) then (False, s1)
      else (True, s1\<lparr>plans := map (\<lambda>p. if matching p then change p else p) (plans s1)\<rparr>))"

definition insert_plan :: "env \<Rightarrow> plan \<Rightarrow> store \<Rightarrow> bool \<times> store" where
  "insert_plan e row s =
     (let s1 = send (Plans, INSERT) s in
      if rejects e (Plans, INSERT) then (False, s1)
      else (True, s1\<lparr>plans := plans s1 @ [row]\<rparr>))"

definition update_student_plans ::
  "env \<Rightarrow> (student_plan \<Rightarrow> bool) \<Rightarrow> (student_plan \<Rightarrow> student_plan) \<Rightarrow> store
     \<Rightarrow> bool \<times> store" where
  "update_student_plans e matching change s =
     (let s1 = send (StudentPlans, UPDATE) s in
      if rejects e (StudentPlans, UPDATE) then (False, s1)
      else (True, s1\<lparr>student_plans :=
              map (\<lambda>p. if matching p then change p else p) (student_plans s1)\<rparr>))"

definition insert_student_plan :: "env \<Rightarrow> student_plan \<Rightarrow> store \<Rightarrow> bool \<times> store" where
  "insert_student_plan e row s =
     (let s1 = send (StudentPlans, INSERT) s in
      if rejects e (StudentPlans, INSERT) then (False, s1)
      else (True, s1\<lparr>student_plans := student_plans s1 @ [row]\<rparr>))"

text \<open>Removing profiles. The migrations declare \<^verbatim>\<open>student_plans.student_id\<close> and
  \<^verbatim>\<open>check_ins.student_id\<close> as \<^verbatim>\<open>REFERENCES profiles(id) ON DELETE CASCADE\<close>, and
  \<^verbatim>\<open>profiles.user_id\<close> as \<^verbatim>\<open>REFERENCES auth.users(id) ON DELETE CASCADE\<close>: the rows of a
  removed profile go with it, and the profile of a removed user goes with the user.\<close>

definition remove_profiles :: "(profile \<Rightarrow> bool) \<Rightarrow> store \<Rightarrow> store" where
  "remove_profiles gone s =
     (let ids = map p_id (filter gone (profiles s)) in
      s\<lparr>profiles := filter (\<lambda>p. \<not> gone p) (profiles s),
        student_plans := filter (\<lambda>sp. sp_student_id sp \<notin> set ids) (student_plans s),
        check_ins := filter (\<lambda>r. ci_student_id r \<notin> set ids) (check_ins s)\<rparr>)"

definition delete_profile :: "env \<Rightarrow> string \<Rightarrow> store \<Rightarrow> bool \<times> store" where
  "delete_profile e profileId s =
     (let s1 = send (Profiles, DELETE) s in
      if rejects e (Profiles, DELETE) then (False, s1)
      else (True, remove_profiles (\<lambda>p. p_id p = profileId) s1))"

text \<open>The authentication provider is not a table. What a function does next depends on its
  answer; \<^verbatim>\<open>auth.admin.deleteUser\<close>, when it is allowed, removes the user; the sign-up trigger
  of the migrations (\<^verbatim>\<open>handle_new_user\<close>), where it is installed, adds a profile row for the
  new user: \<open>created\<close> holds the rows it adds.\<close>

datatype auth_answer =
    AuthError            \<comment> \<open>an error object\<close>
  | AuthNoUser           \<comment> \<open>no error, and no user in the answer\<close>
  | AuthUser string      \<comment> \<open>no error, and a user with this id\<close>

definition auth_admin_deleteUser :: "bool \<Rightarrow> string \<Rightarrow> store \<Rightarrow> store" where
  "auth_admin_deleteUser allowed userId s =
     (if allowed then remove_profiles (\<lambda>p. p_user_id p = userId) s else s)"

definition auth_signUp :: "auth_answer \<Rightarrow> profile list \<Rightarrow> store \<Rightarrow> store" where
  "auth_signUp answer created s =
     (case answer of AuthUser _ \<Rightarrow> s\<lparr>profiles := profiles s @ created\<rparr> | _ \<Rightarrow> s)"

subsection \<open>Signing in and signing up\<close>

text \<open>StudentLoginForm \<^verbatim>\<open>onSubmit\<close>, Login \<^verbatim>\<open>onTeacherLogin\<close> and \<^verbatim>\<open>onStudentLogin\<close>: the
  profile is read when the provider answered with a user.\<close>

definition StudentLoginForm_onSubmit :: "auth_answer \<Rightarrow> store \<Rightarrow> store" where
  "StudentLoginForm_onSubmit answer s =
     (case answer of AuthUser _ \<Rightarrow> send (Profiles, SELECT) s | _ \<Rightarrow> s)"

definition Login_onTeacherLogin :: "auth_answer \<Rightarrow> store \<Rightarrow> store" where
  "Login_onTeacherLogin answer s =
     (case answer of AuthUser _ \<Rightarrow> send (Profiles, SELECT) s | _ \<Rightarrow> s)"

definition Login_onStudentLogin :: "auth_answer \<Rightarrow> store \<Rightarrow> store" where
  "Login_onStudentLogin answer s =
     (case answer of AuthUser _ \<Rightarrow> send (Profiles, SELECT) s | _ \<Rightarrow> s)"

text \<open>\<^verbatim>\<open>data.cpf || null\<close>.\<close>

definition or_null :: "string \<Rightarrow> string option" where
  "or_null x = (if x = [] then None else Some x)"

text \<open>Login \<^verbatim>\<open>onSignup\<close> (an admin account) and AddStudentDialog \<^verbatim>\<open>onSubmit\<close> (a student
  account): after the sign-up, the profile row is inserted when the answer has a user.\<close>

definition Login_onSignup ::
  "env \<Rightarrow> auth_answer \<Rightarrow> profile list \<Rightarrow> string \<Rightarrow> string \<Rightarrow> store \<Rightarrow> store" where
  "Login_onSignup e answer created fullName cpf s =
     (let s1 = auth_signUp answer created s in
      case answer of
        AuthUser userId \<Rightarrow>
          snd (insert_profile e
                 \<lparr>p_id = fresh_id e, p_user_id = userId, p_full_name = fullName,
                   p_cpf = or_null cpf, p_role = ''admin'', p_face_encoding = None\<rparr> s1)
      | _ \<Rightarrow> s1)"

definition AddStudentDialog_onSubmit ::
  "env \<Rightarrow> auth_answer \<Rightarrow> profile list \<Rightarrow> string \<Rightarrow> string \<Rightarrow> store \<Rightarrow> store" where
  "AddStudentDialog_onSubmit e answer created fullName cpf s =
     (let s1 = auth_signUp answer created s in
      case answer of
        AuthUser userId \<Rightarrow>
          snd (insert_profile e
                 \<lparr>p_id = fresh_id e, p_user_id = userId, p_full_name = fullName,
                   p_cpf = or_null cpf, p_role = ''student'', p_face_encoding = None\<rparr> s1)
      | _ \<Rightarrow> s1)"

subsection \<open>Students and their profiles\<close>

definition Students_fetchStudents :: "store \<Rightarrow> store" where
  "Students_fetchStudents s = send (Profiles, SELECT) s"

text \<open>EditStudentDialog \<^verbatim>\<open>onSubmit\<close>: nothing without a selected student.\<close>

definition EditStudentDialog_onSubmit ::
  "env \<Rightarrow> profile option \<Rightarrow> string \<Rightarrow> string \<Rightarrow> store \<Rightarrow> store" where
  "EditStudentDialog_onSubmit e student fullName cpf s =
     (case student of
        None \<Rightarrow> s
      | Some st \<Rightarrow>
          snd (update_profiles e (\<lambda>p. p_id p = p_id st)
                 (\<lambda>p. p\<lparr>p_full_name := fullName, p_cpf := or_null cpf\<rparr>) s))"

text \<open>DeleteStudentDialog \<^verbatim>\<open>handleDelete\<close>: the user is deleted at the provider (a failure
  there is only logged), then the profile row, "this will cascade delete related records".\<close>

definition DeleteStudentDialog_handleDelete ::
  "env \<Rightarrow> profile option \<Rightarrow> bool \<Rightarrow> store \<Rightarrow> store" where
  "DeleteStudentDialog_handleDelete e student allowed s =
     (case student of
        None \<Rightarrow> s
      | Some st \<Rightarrow>
          snd (delete_profile e (p_id st) (auth_admin_deleteUser allowed (p_user_id st) s)))"

text \<open>Profile page, \<^verbatim>\<open>onUpdateProfile\<close> (the rows of the signed-in user) and
  \<^verbatim>\<open>handleFaceCapture\<close> (the row with the id of the session's profile, if there is one).\<close>

definition Profile_onUpdateProfile ::
  "env \<Rightarrow> string option \<Rightarrow> profile option \<Rightarrow> string \<Rightarrow> string \<Rightarrow> store \<Rightarrow> store" where
  "Profile_onUpdateProfile e user prof fullName cpf s =
     (case (user, prof) of
        (Some userId, Some _) \<Rightarrow>
          snd (update_profiles e (\<lambda>p. p_user_id p = userId)
                 (\<lambda>p. p\<lparr>p_full_name := fullName, p_cpf := or_null cpf\<rparr>) s)
      | _ \<Rightarrow> s)"

definition Profile_handleFaceCapture ::
  "env \<Rightarrow> profile option \<Rightarrow> string \<Rightarrow> store \<Rightarrow> store" where
  "Profile_handleFaceCapture e prof faceEncoding s =
     snd (update_profiles e (\<lambda>p. case prof of None \<Rightarrow> False | Some me \<Rightarrow> p_id p = p_id me)
            (\<lambda>p. p\<lparr>p_face_encoding := Some faceEncoding\<rparr>) s)"

subsection \<open>Plans and student plans\<close>

definition Plans_fetchPlans :: "store \<Rightarrow> store" where
  "Plans_fetchPlans s = send (Plans, SELECT) s"

text \<open>Plans page, \<^verbatim>\<open>togglePlanStatus\<close>: after an accepted update the list is fetched again.\<close>

definition Plans_togglePlanStatus :: "env \<Rightarrow> string \<Rightarrow> bool \<Rightarrow> store \<Rightarrow> store" where
  "Plans_togglePlanStatus e planId currentStatus s =
     (case update_plans e (\<lambda>p. pl_id p = planId) (\<lambda>p. p\<lparr>pl_is_active := \<not> currentStatus\<rparr>) s of
        (True, s1) \<Rightarrow> Plans_fetchPlans s1
      | (False, s1) \<Rightarrow> s1)"

definition AddPlanDialog_onSubmit :: "env \<Rightarrow> string \<Rightarrow> int \<Rightarrow> store \<Rightarrow> store" where
  "AddPlanDialog_onSubmit e name months s =
     snd (insert_plan e
            \<lparr>pl_id = fresh_id e, pl_name = name, pl_duration_months = months,
              pl_is_active = True\<rparr> s)"

definition EditPlanDialog_onSubmit ::
  "env \<Rightarrow> plan option \<Rightarrow> string \<Rightarrow> int \<Rightarrow> bool \<Rightarrow> store \<Rightarrow> store" where
  "EditPlanDialog_onSubmit e selected name months active s =
     (case selected of
        None \<Rightarrow> s
      | Some pl \<Rightarrow>
          snd (update_plans e (\<lambda>p. pl_id p = pl_id pl)
                 (\<lambda>p. p\<lparr>pl_name := name, pl_duration_months := months, pl_is_active := active\<rparr>)
                 s))"

definition ManageStudentPlanDialog_fetchPlans :: "store \<Rightarrow> store" where
  "ManageStudentPlanDialog_fetchPlans s = send (Plans, SELECT) s"

text \<open>ManageStudentPlanDialog \<^verbatim>\<open>onSubmit\<close>: the student's current row is updated, or a new
  row is inserted when there is none; \<open>form\<close> holds the plan id, the two dates and the status
  of the form.\<close>

definition ManageStudentPlanDialog_onSubmit ::
  "env \<Rightarrow> profile option \<Rightarrow> student_plan option \<Rightarrow> student_plan \<Rightarrow> store \<Rightarrow> store" where
  "ManageStudentPlanDialog_onSubmit e student currentPlan form s =
     (case student of
        None \<Rightarrow> s
      | Some st \<Rightarrow>
          (case currentPlan of
             Some cur \<Rightarrow>
               snd (update_student_plans e (\<lambda>sp. sp_id sp = sp_id cur)
                      (\<lambda>sp. sp\<lparr>sp_plan_id := sp_plan_id form, sp_start_date := sp_start_date form,
                               sp_end_date := sp_end_date form, sp_status := sp_status form\<rparr>) s)
           | None \<Rightarrow>
               snd (insert_student_plan e
                      \<lparr>sp_id = fresh_id e, sp_student_id = p_id st, sp_plan_id = sp_plan_id form,
                        sp_start_date = sp_start_date form, sp_end_date = sp_end_date form,
                        sp_status = sp_status form, sp_created_at = stamp e\<rparr> s)))"

subsection \<open>Lists and counts\<close>

definition CheckInHistoryDialog_fetchCheckIns :: "store \<Rightarrow> store" where
  "CheckInHistoryDialog_fetchCheckIns s = send (CheckIns, SELECT) s"

text \<open>Dashboard \<^verbatim>\<open>fetchStats\<close> and Reports \<^verbatim>\<open>fetchReports\<close> send their queries one after the
  other and do not look at the errors.\<close>

definition Dashboard_fetchStats :: "store \<Rightarrow> store" where
  "Dashboard_fetchStats s =
     send (CheckIns, SELECT) (send (Plans, SELECT)
       (send (StudentPlans, SELECT) (send (Profiles, SELECT) s)))"

definition Reports_fetchReports :: "store \<Rightarrow> store" where
  "Reports_fetchReports s =
     send (StudentPlans, SELECT) (send (CheckIns, SELECT) (send (StudentPlans, SELECT) s))"

subsection \<open>Workout sheets and exercises\<close>

text \<open>The guards of these functions are their parameters: whether a student, a profile or a
  sheet is selected, whether the dialog is read-only, whether the name is blank, whether
  the browser's confirmation was given, whether any exercise is left to save.\<close>

definition StudentWorkoutDialog_fetchWorkoutSheets :: "bool \<Rightarrow> store \<Rightarrow> store" where
  "StudentWorkoutDialog_fetchWorkoutSheets has_student s =
     (if \<not> has_student then s else send (WorkoutSheets, SELECT) s)"

definition StudentWorkoutDialog_handleDeleteWorkout ::
  "env \<Rightarrow> bool \<Rightarrow> bool \<Rightarrow> store \<Rightarrow> store" where
  "StudentWorkoutDialog_handleDeleteWorkout e confirmed has_student s =
     (if \<not> confirmed then s
      else (case ask e (WorkoutSheets, DELETE) s of
              (True, s1) \<Rightarrow> StudentWorkoutDialog_fetchWorkoutSheets has_student s1
            | (False, s1) \<Rightarrow> s1))"

definition StudentWorkoutDialog_toggleWorkoutStatus :: "env \<Rightarrow> bool \<Rightarrow> store \<Rightarrow> store" where
  "StudentWorkoutDialog_toggleWorkoutStatus e has_student s =
     (case ask e (WorkoutSheets, UPDATE) s of
        (True, s1) \<Rightarrow> StudentWorkoutDialog_fetchWorkoutSheets has_student s1
      | (False, s1) \<Rightarrow> s1)"

definition WorkoutSheetDialog_fetchExercises :: "bool \<Rightarrow> store \<Rightarrow> store" where
  "WorkoutSheetDialog_fetchExercises has_sheet s =
     (if \<not> has_sheet then s else send (Exercises, SELECT) s)"

definition WorkoutSheetDialog_handleUpdateWorkoutSheet ::
  "env \<Rightarrow> bool \<Rightarrow> bool \<Rightarrow> bool \<Rightarrow> store \<Rightarrow> store" where
  "WorkoutSheetDialog_handleUpdateWorkoutSheet e has_sheet readOnly name_blank s =
     (if \<not> has_sheet \<or> readOnly then s
      else if name_blank then s
      else snd (ask e (WorkoutSheets, UPDATE) s))"

text \<open>\<^verbatim>\<open>saveExercises\<close> deletes the exercises of the sheet without looking at the answer,
  then inserts the ones to save, if any.\<close>

definition WorkoutSheetDialog_saveExercises ::
  "env \<Rightarrow> bool \<Rightarrow> bool \<Rightarrow> bool \<Rightarrow> store \<Rightarrow> store" where
  "WorkoutSheetDialog_saveExercises e has_sheet readOnly any_to_save s =
     (if \<not> has_sheet \<or> readOnly then s
      else (let s1 = snd (ask e (Exercises, DELETE) s) in
            if any_to_save then snd (ask e (Exercises, INSERT) s1) else s1))"

definition AddWorkoutSheetDialog_handleSubmit ::
  "env \<Rightarrow> bool \<Rightarrow> bool \<Rightarrow> store \<Rightarrow> store" where
  "AddWorkoutSheetDialog_handleSubmit e name_blank has_profile s =
     (if name_blank then s
      else if \<not> has_profile then s
      else snd (ask e (WorkoutSheets, INSERT) s))"

definition StudentWorkout_fetchWorkoutSheets :: "bool \<Rightarrow> store \<Rightarrow> store" where
  "StudentWorkout_fetchWorkoutSheets has_profile s =
     (if \<not> has_profile then s else send (WorkoutSheets, SELECT) s)"

subsection \<open>One run of any of them\<close>

text \<open>A call names the function and gives its arguments: what the page state and the form
  hold, and what the authentication provider answers.\<close>

datatype call =
    StudentLoginForm_onSubmit_call auth_answer
  | Login_onTeacherLogin_call auth_answer
  | Login_onStudentLogin_call auth_answer
  | Login_onSignup_call auth_answer "profile list" string string
  | AddStudentDialog_onSubmit_call auth_answer "profile list" string string
  | Students_fetchStudents_call
  | EditStudentDialog_onSubmit_call "profile option" string string
  | DeleteStudentDialog_handleDelete_call "profile option" bool
  | Profile_onUpdateProfile_call "string option" "profile option" string string
  | Profile_handleFaceCapture_call "profile option" string
  | Plans_fetchPlans_call
  | Plans_togglePlanStatus_call string bool
  | AddPlanDialog_onSubmit_call string int
  | EditPlanDialog_onSubmit_call "plan option" string int bool
  | DeletePlanDialog_handleDelete_call "plan option"
  | ManageStudentPlanDialog_fetchPlans_call
  | ManageStudentPlanDialog_onSubmit_call "profile option" "student_plan option" student_plan
  | CheckInHistoryDialog_fetchCheckIns_call
  | CheckInHistoryDialog_confirmDelete_call "check_in option"
  | Dashboard_fetchStats_call
  | Reports_fetchReports_call
  | StudentDashboard_fetchStudentData_call profile
  | StudentCheckIn_fetchStudentPlan_call profile
  | StudentCheckIn_processCheckIn_call "profile option" "student_plan option" "plan option"
  | StudentPlan_fetchStudentPlan_call profile
  | CheckIn_processCheckIn_call string
  | FaceRecognitionCamera_performFaceRecognition_call bool bool
  | StudentWorkoutDialog_fetchWorkoutSheets_call bool
  | StudentWorkoutDialog_handleDeleteWorkout_call bool bool
  | StudentWorkoutDialog_toggleWorkoutStatus_call bool
  | WorkoutSheetDialog_fetchExercises_call bool
  | WorkoutSheetDialog_handleUpdateWorkoutSheet_call bool bool bool
  | WorkoutSheetDialog_saveExercises_call bool bool bool
  | AddWorkoutSheetDialog_handleSubmit_call bool bool
  | StudentWorkout_fetchWorkoutSheets_call bool

fun run :: "env \<Rightarrow> call \<Rightarrow> store \<Rightarrow> store" where
  "run e (StudentLoginForm_onSubmit_call a) s = StudentLoginForm_onSubmit a s"
| "run e (Login_onTeacherLogin_call a) s = Login_onTeacherLogin a s"
| "run e (Login_onStudentLogin_call a) s = Login_onStudentLogin a s"
| "run e (Login_onSignup_call a created n c) s = Login_onSignup e a created n c s"
| "run e (AddStudentDialog_onSubmit_call a created n c) s =
     AddStudentDialog_onSubmit e a created n c s"
| "run e Students_fetchStudents_call s = Students_fetchStudents s"
| "run e (EditStudentDialog_onSubmit_call st n c) s = EditStudentDialog_onSubmit e st n c s"
| "run e (DeleteStudentDialog_handleDelete_call st allowed) s =
     DeleteStudentDialog_handleDelete e st allowed s"
| "run e (Profile_onUpdateProfile_call u p n c) s = Profile_onUpdateProfile e u p n c s"
| "run e (Profile_handleFaceCapture_call p enc) s = Profile_handleFaceCapture e p enc s"
| "run e Plans_fetchPlans_call s = Plans_fetchPlans s"
| "run e (Plans_togglePlanStatus_call i cur) s = Plans_togglePlanStatus e i cur s"
| "run e (AddPlanDialog_onSubmit_call n m) s = AddPlanDialog_onSubmit e n m s"
| "run e (EditPlanDialog_onSubmit_call p n m a) s = EditPlanDialog_onSubmit e p n m a s"
| "run e (DeletePlanDialog_handleDelete_call p) s = snd (DeletePlanDialog_handleDelete e p s)"
| "run e ManageStudentPlanDialog_fetchPlans_call s = ManageStudentPlanDialog_fetchPlans s"
| "run e (ManageStudentPlanDialog_onSubmit_call st cur form) s =
     ManageStudentPlanDialog_onSubmit e st cur form s"
| "run e CheckInHistoryDialog_fetchCheckIns_call s = CheckInHistoryDialog_fetchCheckIns s"
| "run e (CheckInHistoryDialog_confirmDelete_call sel) s =
     snd (CheckInHistoryDialog_confirmDelete e sel s)"
| "run e Dashboard_fetchStats_call s = Dashboard_fetchStats s"
| "run e Reports_fetchReports_call s = Reports_fetchReports s"
| "run e (StudentDashboard_fetchStudentData_call p) s =
     snd (StudentDashboard_fetchStudentData e p s)"
| "run e (StudentCheckIn_fetchStudentPlan_call p) s = snd (StudentCheckIn_fetchStudentPlan e p s)"
| "run e (StudentCheckIn_processCheckIn_call p sp j) s =
     snd (StudentCheckIn_processCheckIn e p sp j s)"
| "run e (StudentPlan_fetchStudentPlan_call p) s = snd (StudentPlan_fetchStudentPlan e p s)"
| "run e (CheckIn_processCheckIn_call qrCode) s = snd (CheckIn_processCheckIn e qrCode s)"
| "run e (FaceRecognitionCamera_performFaceRecognition_call refs ctx) s =
     snd (performFaceRecognition e refs ctx () s)"
| "run e (StudentWorkoutDialog_fetchWorkoutSheets_call h) s =
     StudentWorkoutDialog_fetchWorkoutSheets h s"
| "run e (StudentWorkoutDialog_handleDeleteWorkout_call c h) s =
     StudentWorkoutDialog_handleDeleteWorkout e c h s"
| "run e (StudentWorkoutDialog_toggleWorkoutStatus_call h) s =
     StudentWorkoutDialog_toggleWorkoutStatus e h s"
| "run e (WorkoutSheetDialog_fetchExercises_call h) s = WorkoutSheetDialog_fetchExercises h s"
| "run e (WorkoutSheetDialog_handleUpdateWorkoutSheet_call h r b) s =
     WorkoutSheetDialog_handleUpdateWorkoutSheet e h r b s"
| "run e (WorkoutSheetDialog_saveExercises_call h r a) s =
     WorkoutSheetDialog_saveExercises e h r a s"
| "run e (AddWorkoutSheetDialog_handleSubmit_call b h) s =
     AddWorkoutSheetDialog_handleSubmit e b h s"
| "run e (StudentWorkout_fetchWorkoutSheets_call h) s = StudentWorkout_fetchWorkoutSheets h s"

text \<open>The requests a run sends: what it adds to the log.\<close>

definition sent :: "env \<Rightarrow> call \<Rightarrow> store \<Rightarrow> request list" where
  "sent e c s = drop (length (issued s)) (issued (run e c s))"

text \<open>The two check-in functions, the delete of the history dialog, and the delete of a
  student.\<close>

fun is_check_in :: "call \<Rightarrow> bool" where
  "is_check_in (CheckIn_processCheckIn_call _) = True"
| "is_check_in (StudentCheckIn_processCheckIn_call _ _ _) = True"
| "is_check_in _ = False"

fun is_history_delete :: "call \<Rightarrow> bool" where
  "is_history_delete (CheckInHistoryDialog_confirmDelete_call _) = True"
| "is_history_delete _ = False"

fun is_student_delete :: "call \<Rightarrow> bool" where
  "is_student_delete (DeleteStudentDialog_handleDelete_call _ _) = True"
| "is_student_delete _ = False"

section \<open>Facts about splitting\<close>

lemma split_on_not_Nil: "split_on c s \<noteq> []"
  by (induction s) (auto split: list.splits)

lemma split_on_no_sep: "c \<notin> set s \<Longrightarrow> split_on c s = [s]"
  by (induction s) auto

lemma split_on_append_sep:
  "c \<notin> set p \<Longrightarrow> split_on c (p @ c # s) = p # split_on c s"
  by (induction p) auto

lemma length_split_on: "length (split_on c s) = Suc (count_list s c)"
proof (induction s)
  case Nil
  show ?case by simp
next
  case (Cons x xs)
  then show ?case
    using split_on_not_Nil [of c xs] by (cases "split_on c xs") auto
qed

lemma split_on_code:
  "split_on CHR ''-'' (generateStudentQR s) = ''KGYM'' # ''CHECKIN'' # split_on CHR ''-'' s"
proof -
  have "generateStudentQR s = ''KGYM'' @ CHR ''-'' # (''CHECKIN'' @ CHR ''-'' # s)"
    by (simp add: generateStudentQR_def)
  then show ?thesis
    by (simp only: split_on_append_sep) (simp add: split_on_append_sep)
qed

lemma extract_generated:
  "extract_student_id (generateStudentQR s) =
     (if CHR ''-'' \<in> set s then Inl InvalidQR else Inr s)"
proof (cases "CHR ''-'' \<in> set s")
  case True
  then have "0 < count_list s CHR ''-''"
    using count_list_0_iff [of s "CHR ''-''"] by auto
  then have "length (split_on CHR ''-'' s) \<noteq> 1"
    by (simp add: length_split_on)
  with True show ?thesis
    by (simp add: extract_student_id_def split_on_code)
next
  case False
  then show ?thesis
    by (simp add: extract_student_id_def split_on_code split_on_no_sep)
qed

lemma extract_student_id_Inr_iff:
  "(extract_student_id qrCode = Inr sid) =
   (split_on CHR ''-'' qrCode = [''KGYM'', ''CHECKIN'', sid])"
proof
  assume "extract_student_id qrCode = Inr sid"
  then have l: "length (split_on CHR ''-'' qrCode) = 3"
    and p: "split_on CHR ''-'' qrCode ! 0 = ''KGYM''" "split_on CHR ''-'' qrCode ! 1 = ''CHECKIN''"
      "split_on CHR ''-'' qrCode ! 2 = sid"
    by (auto simp add: extract_student_id_def Let_def split: if_splits)
  from l obtain a b c where "split_on CHR ''-'' qrCode = [a, b, c]"
    by (auto simp add: length_Suc_conv eval_nat_numeral)
  with p show "split_on CHR ''-'' qrCode = [''KGYM'', ''CHECKIN'', sid]" by simp
next
  assume "split_on CHR ''-'' qrCode = [''KGYM'', ''CHECKIN'', sid]"
  then show "extract_student_id qrCode = Inr sid"
    by (simp add: extract_student_id_def)
qed

text \<open>Decoding never fails in any other way than with the invalid-code error.\<close>

lemma extract_student_id_cases:
  "extract_student_id qrCode = Inl InvalidQR \<or>
   (\<exists>sid. extract_student_id qrCode = Inr sid)"
  by (simp add: extract_student_id_def Let_def)

text \<open>An id without \<^verbatim>\<open>'-'\<close> survives encoding and decoding.\<close>

lemma extract_generated_dash_free:
  "CHR ''-'' \<notin> set sid \<Longrightarrow> extract_student_id (generateStudentQR sid) = Inr sid"
  by (simp add: extract_generated)

section \<open>A small store to run the code on\<close>

definition ex_student :: profile where
  "ex_student = \<lparr>p_id = ''s1'', p_user_id = ''u1'', p_full_name = ''Ana'',
     p_cpf = Some ''123.456.789-09'', p_role = ''student'', p_face_encoding = None\<rparr>"

definition ex_plan :: plan where
  "ex_plan = \<lparr>pl_id = ''mensal'', pl_name = ''Mensal'', pl_duration_months = 1,
     pl_is_active = True\<rparr>"

text \<open>The plan of the scenario: start 2024-01-10, end 2024-02-10, status active.\<close>

definition ex_student_plan :: student_plan where
  "ex_student_plan = \<lparr>sp_id = ''sp1'', sp_student_id = ''s1'', sp_plan_id = ''mensal'',
     sp_start_date = \<lparr>year = 2024, month = 1, day = 10\<rparr>,
     sp_end_date = \<lparr>year = 2024, month = 2, day = 10\<rparr>,
     sp_status = ''active'', sp_created_at = 1704880800000\<rparr>"

definition ex_store :: store where
  "ex_store = \<lparr>profiles = [ex_student], plans = [ex_plan],
     student_plans = [ex_student_plan], check_ins = [], issued = []\<rparr>"

text \<open>A run at 2024-02-05T12:00Z on a store that answers every request.\<close>

definition ex_env :: env where
  "ex_env = \<lparr>rejects = (\<lambda>_. False), called = 1707134400000, today = 1707134400001,
     stamp = 1707134400002, fresh_id = ''c1''\<rparr>"

lemma ex_end_date_ms: "Date_parse \<lparr>year = 2024, month = 2, day = 10\<rparr> = 1707523200000"
  by code_simp

section \<open>Facts about the calendar\<close>

lemma year_down_le: "DayFromYear (year_down n y) \<le> n"
proof (induction n y rule: year_down.induct)
  case (1 n y)
  then show ?case by (subst year_down.simps) auto
qed

lemma year_up_bounds:
  "DayFromYear y \<le> n \<Longrightarrow>
   DayFromYear (year_up n y) \<le> n \<and> n < DayFromYear (year_up n y + 1)"
proof (induction n y rule: year_up.induct)
  case (1 n y)
  then show ?case by (subst (1 2) year_up.simps) auto
qed

lemma YearFromDay_bounds:
  "DayFromYear (YearFromDay n) \<le> n" "n < DayFromYear (YearFromDay n + 1)"
  using year_up_bounds [OF year_down_le, of n "1970 + n div 365"]
  by (simp_all add: YearFromDay_def)

lemma DayFromYear_add: "DayFromYear y + 365 * int k \<le> DayFromYear (y + int k)"
proof (induction k)
  case 0
  show ?case by simp
next
  case (Suc k)
  have "DayFromYear (y + int (Suc k)) = DayFromYear (y + int k) + DaysInYear (y + int k)"
    using DayFromYear_Suc [of "y + int k"] by (simp add: ac_simps)
  with Suc DaysInYear_bounds(1) [of "y + int k"] show ?case by simp
qed

lemma DayFromYear_mono: "a \<le> b \<Longrightarrow> DayFromYear a \<le> DayFromYear b"
  using DayFromYear_add [of a "nat (b - a)"] by simp

text \<open>The year of a day is the only year the day lies in.\<close>

lemma YearFromDay_unique:
  assumes "DayFromYear y \<le> n" "n < DayFromYear (y + 1)"
  shows "YearFromDay n = y"
proof (rule ccontr)
  assume ne: "YearFromDay n \<noteq> y"
  show False
  proof (cases "YearFromDay n < y")
    case True
    then have "DayFromYear (YearFromDay n + 1) \<le> DayFromYear y"
      by (intro DayFromYear_mono) simp
    with YearFromDay_bounds(2) [of n] assms(1) show False by simp
  next
    case False
    with ne have "DayFromYear (y + 1) \<le> DayFromYear (YearFromDay n)"
      by (intro DayFromYear_mono) simp
    with YearFromDay_bounds(1) [of n] assms(2) show False by simp
  qed
qed

lemma DaysInMonth_bounds: "28 \<le> DaysInMonth y m" "DaysInMonth y m \<le> 31"
  by (simp_all add: DaysInMonth_def)

lemma DaysBeforeMonth_12: "DaysBeforeMonth y 12 = DaysInYear y"
  by (simp add: eval_nat_numeral DaysInMonth_def DaysInYear_def)

lemma DaysBeforeMonth_nonneg: "0 \<le> DaysBeforeMonth y m"
  using DaysInMonth_bounds(1) [of y]
  by (induction m) (auto simp: order_trans [of 0 28])

lemma DaysBeforeMonth_mono: "a \<le> b \<Longrightarrow> DaysBeforeMonth y a \<le> DaysBeforeMonth y b"
proof (induction b)
  case 0
  then show ?case by simp
next
  case (Suc b)
  show ?case
  proof (cases "a = Suc b")
    case True
    then show ?thesis by simp
  next
    case False
    with Suc have "DaysBeforeMonth y a \<le> DaysBeforeMonth y b" by simp
    with DaysInMonth_bounds(1) [of y b] show ?thesis by simp
  qed
qed

lemma month_from_found:
  "m \<le> k \<Longrightarrow> k \<le> 11 \<Longrightarrow> 0 \<le> r \<Longrightarrow> r < DaysInMonth y k \<Longrightarrow>
   month_from y (DaysBeforeMonth y k - DaysBeforeMonth y m + r) m = (k, r)"
proof (induction "k - m" arbitrary: m)
  case 0
  then have "m = k" by simp
  with 0 show ?case by (subst month_from.simps) simp
next
  case (Suc j)
  then have lt: "m < k" and j: "j = k - Suc m" by simp_all
  have "DaysBeforeMonth y (Suc m) \<le> DaysBeforeMonth y k"
    using lt by (intro DaysBeforeMonth_mono) simp
  then have ge: "DaysInMonth y m \<le> DaysBeforeMonth y k - DaysBeforeMonth y m + r"
    using Suc.prems(3) by simp
  have "month_from y (DaysBeforeMonth y k - DaysBeforeMonth y m + r) m =
        month_from y (DaysBeforeMonth y k - DaysBeforeMonth y (Suc m) + r) (Suc m)"
    using ge lt Suc.prems(2) by (subst month_from.simps) (simp add: algebra_simps)
  also have "\<dots> = (k, r)"
    using Suc.hyps(1) [OF j] lt Suc.prems by simp
  finally show ?case .
qed

text \<open>From a day number back to the calendar date it was made from.\<close>

lemma civil_from_days_MakeDay:
  assumes "k \<le> 11" "1 \<le> d" "d \<le> DaysInMonth y k"
  shows "civil_from_days (DayFromYear y + DaysBeforeMonth y k + d - 1) =
         \<lparr>year = y, month = int k + 1, day = d\<rparr>"
proof -
  let ?n = "DayFromYear y + DaysBeforeMonth y k + d - 1"
  have "DaysBeforeMonth y (Suc k) \<le> DaysBeforeMonth y 12"
    using assms(1) by (intro DaysBeforeMonth_mono) simp
  then have up: "DaysBeforeMonth y k + d - 1 < DaysInYear y"
    using assms(3) by (simp add: DaysBeforeMonth_12)
  have lo: "0 \<le> DaysBeforeMonth y k + d - 1"
    using DaysBeforeMonth_nonneg [of y k] assms(2) by simp
  have yr: "YearFromDay ?n = y"
    using lo up by (intro YearFromDay_unique) (simp_all add: DayFromYear_Suc)
  have "month_from y (DaysBeforeMonth y k - DaysBeforeMonth y 0 + (d - 1)) 0 = (k, d - 1)"
    using assms by (intro month_from_found) simp_all
  then have "month_from y (?n - DayFromYear y) 0 = (k, d - 1)"
    by (simp add: algebra_simps)
  then show ?thesis
    by (simp add: civil_from_days_def yr)
qed

section \<open>Facts about the store operations\<close>




lemma find_None_iff2: "(find P xs = None) = (\<not> (\<exists>x\<in>set xs. P x))"
  by (induction xs) auto



lemma insert_check_in_eq:
  "insert_check_in e sid s =
     (if rejects e (CheckIns, INSERT) then (Inl StoreError, send (CheckIns, INSERT) s)
      else (Inr (), (send (CheckIns, INSERT) s)\<lparr>check_ins := check_ins s @
              [\<lparr>ci_id = fresh_id e, ci_student_id = sid, ci_check_in_time = stamp e\<rparr>]\<rparr>))"
  by (simp add: insert_check_in_def Let_def send_def)

lemma send_tables [simp]:
  "profiles (send r s) = profiles s" "plans (send r s) = plans s"
  "student_plans (send r s) = student_plans s" "check_ins (send r s) = check_ins s"
  "issued (send r s) = issued s @ [r]"
  by (simp_all add: send_def)

section \<open>Facts about the membership status\<close>

lemma int_le_div_iff:
  fixes a b k :: int
  assumes "0 < b"
  shows "(k \<le> a div b) = (k * b \<le> a)"
proof -
  have "(a + (- k) * b) div b = - k + a div b"
    using assms by (subst div_mult_self1) simp_all
  then have "(0 \<le> a div b - k) = (0 \<le> (a - k * b) div b)" by simp
  also have "\<dots> = (0 \<le> a - k * b)"
    using assms by (rule pos_imp_zdiv_nonneg_iff)
  finally show ?thesis by simp
qed

lemma ceil_div_le_iff:
  fixes a b k :: int
  assumes "0 < b"
  shows "(ceil_div a b \<le> k) = (a \<le> k * b)"
proof -
  have "(ceil_div a b \<le> k) = (- k \<le> (- a) div b)"
    by (auto simp add: ceil_div_def)
  also have "\<dots> = (- k * b \<le> - a)"
    using assms by (rule int_le_div_iff)
  finally show ?thesis by simp
qed

lemma msPerDay_pos: "0 < msPerDay"
  by (simp add: msPerDay_def)

lemma days_until_le_iff:
  "(days_until endDate now \<le> k) = (Date_parse endDate - now \<le> k * msPerDay)"
  by (simp add: days_until_def ceil_div_le_iff [OF msPerDay_pos])

lemma status_by_days:
  "(status (by_days d) = ''expired'') = (d \<le> 0)"
  "(status (by_days d) = ''expiring'') = (1 \<le> d \<and> d \<le> 7)"
  "(status (by_days d) = ''active'') = (7 < d)"
  by (auto simp add: by_days_def)

lemma ex_days: "days_until \<lparr>year = 2024, month = 2, day = 10\<rparr> 1707566400000 = 0"
  "days_until \<lparr>year = 2024, month = 2, day = 10\<rparr> 1707523200000 = 0"
  "days_until \<lparr>year = 2024, month = 2, day = 10\<rparr> 1707134400000 = 5"
  by (simp_all add: days_until_def ex_end_date_ms ceil_div_def msPerDay_def)

lemma find_active_None:
  "\<forall>sp\<in>set rows. sp_status sp \<noteq> ''active'' \<Longrightarrow>
   find (\<lambda>sp. sp_status sp = ''active'') rows = None"
  by (simp add: find_None_iff2)

lemma filter_active_Nil:
  "\<forall>sp\<in>set rows. sp_student_id sp = sid \<longrightarrow> sp_status sp \<noteq> ''active'' \<Longrightarrow>
   filter (\<lambda>sp. sp_student_id sp = sid \<and> sp_status sp = ''active'') rows = []"
  by (auto simp add: filter_empty_conv)

definition ex_expired_plan :: student_plan where
  "ex_expired_plan = \<lparr>sp_id = ''sp2'', sp_student_id = ''s1'', sp_plan_id = ''mensal'',
     sp_start_date = \<lparr>year = 2024, month = 1, day = 10\<rparr>,
     sp_end_date = \<lparr>year = 2024, month = 2, day = 10\<rparr>,
     sp_status = ''expired'', sp_created_at = 1704880800000\<rparr>"

section \<open>Facts about the passwords\<close>

lemma take_6_length: "(6 \<le> length (take 6 xs)) = (6 \<le> length xs)"
  by auto

lemma ex_digits: "strip_non_digits ''123.456.789-09'' = ''12345678909''"
  "strip_non_digits ''12.345'' = ''12345''"
  by (simp_all add: strip_non_digits_def is_digit_def)

section \<open>Facts about the face-recognition step\<close>

lemma filter_Nil_find: "find P xs = None \<Longrightarrow> filter P xs = []"
  by (induction xs) (auto split: if_splits)

lemma filter_Cons_find: "find P xs = Some p \<Longrightarrow> \<exists>rest. filter P xs = p # rest"
  by (induction xs) (auto split: if_splits)

definition ex_faces :: "profile list" where
  "ex_faces =
    [ex_student,
     \<lparr>p_id = ''s2'', p_user_id = ''u2'', p_full_name = ''Bia'', p_cpf = None,
       p_role = ''student'', p_face_encoding = Some ''face_2''\<rparr>,
     \<lparr>p_id = ''s3'', p_user_id = ''u3'', p_full_name = ''Caio'', p_cpf = None,
       p_role = ''student'', p_face_encoding = Some ''face_3''\<rparr>]"

section \<open>Facts about dates and time values\<close>

lemma Day_mult [simp]: "Day (n * msPerDay) = n"
  by (simp add: Day_def msPerDay_def)

lemma Day_mult_add:
  assumes "0 \<le> r" "r < msPerDay"
  shows "Day (n * msPerDay + r) = n" "TimeWithinDay (n * msPerDay + r) = r"
proof -
  have eq: "n * msPerDay + r = msPerDay * n + r" by simp
  show "Day (n * msPerDay + r) = n"
    unfolding Day_def by (rule int_div_pos_eq [OF eq assms])
  show "TimeWithinDay (n * msPerDay + r) = r"
    unfolding TimeWithinDay_def by (rule int_mod_pos_eq [OF eq assms])
qed

lemma MakeDay_in_range:
  "0 \<le> mon \<Longrightarrow> mon \<le> 11 \<Longrightarrow>
   MakeDay yr mon dt = DayFromYear yr + DaysBeforeMonth yr (nat mon) + dt - 1"
  by (simp add: MakeDay_def)

lemma Date_parse_valid:
  assumes "valid_date d"
  shows "Date_parse d =
    (DayFromYear (year d) + DaysBeforeMonth (year d) (nat (month d - 1)) + day d - 1) * msPerDay"
  using assms by (simp add: Date_parse_def valid_date_def MakeDay_in_range)

lemma civil_of_valid:
  assumes "valid_date d"
  shows "civil_from_days
    (DayFromYear (year d) + DaysBeforeMonth (year d) (nat (month d - 1)) + day d - 1) = d"
proof -
  have k: "nat (month d - 1) \<le> 11" "1 \<le> day d"
      "day d \<le> DaysInMonth (year d) (nat (month d - 1))"
    using assms by (auto simp add: valid_date_def)
  have "int (nat (month d - 1)) + 1 = month d"
    using assms by (simp add: valid_date_def)
  with civil_from_days_MakeDay [OF k] show ?thesis by simp
qed


text \<open>MakeDay with a day of the month that the month has, or that runs over its end.\<close>

lemma civil_MakeDay_overflow:
  assumes "1 \<le> dd" "dd \<le> 31"
  shows "civil_from_days (MakeDay yr mon dd) =
     (let ym = yr + mon div 12; mn = nat (mon mod 12) in
      if dd \<le> DaysInMonth ym mn then \<lparr>year = ym, month = int mn + 1, day = dd\<rparr>
      else \<lparr>year = ym, month = int mn + 2, day = dd - DaysInMonth ym mn\<rparr>)"
proof -
  define ym where "ym = yr + mon div 12"
  define mn where "mn = nat (mon mod 12)"
  have mn: "mn \<le> 11" by (simp add: mn_def) 
  have md: "MakeDay yr mon dd = DayFromYear ym + DaysBeforeMonth ym mn + dd - 1"
    by (simp add: MakeDay_def ym_def mn_def Let_def)
  show ?thesis
  proof (cases "dd \<le> DaysInMonth ym mn")
    case True
    with civil_from_days_MakeDay [OF mn assms(1) True] md show ?thesis
      by (simp add: ym_def [symmetric] mn_def [symmetric])
  next
    case False
    then have "mn \<noteq> 11" using assms(2) by (auto simp add: DaysInMonth_def)
    with mn have s: "Suc mn \<le> 11" by simp
    have lo: "1 \<le> dd - DaysInMonth ym mn" using False by simp
    have hi: "dd - DaysInMonth ym mn \<le> DaysInMonth ym (Suc mn)"
      using assms(2) DaysInMonth_bounds(1) [of ym mn] DaysInMonth_bounds(1) [of ym "Suc mn"]
      by simp
    have "MakeDay yr mon dd =
        DayFromYear ym + DaysBeforeMonth ym (Suc mn) + (dd - DaysInMonth ym mn) - 1"
      by (simp add: md)
    with civil_from_days_MakeDay [OF s lo hi] False show ?thesis
      by (simp add: ym_def [symmetric] mn_def [symmetric])
  qed
qed

lemma ex_valid: "valid_date \<lparr>year = 2024, month = 1, day = 31\<rparr>"
  by (simp add: valid_date_def DaysInMonth_def)

text \<open>Across the change to daylight-saving time the end date slips to the day before: in
  Lisbon, one month from 2024-03-15 is 2024-04-14. Across the change back it does not.\<close>

lemma ex_Lisbon_spring:
  "calculateEndDate Europe_Lisbon_2024 \<lparr>year = 2024, month = 3, day = 15\<rparr> 1
     = \<lparr>year = 2024, month = 4, day = 14\<rparr>"
  by code_simp

lemma ex_Lisbon_offsets:
  "start_offset Europe_Lisbon_2024 \<lparr>year = 2024, month = 10, day = 15\<rparr> = 3600000"
  "end_offset Europe_Lisbon_2024 \<lparr>year = 2024, month = 10, day = 15\<rparr> 1 = 0"
  "start_offset Europe_Lisbon_2024 \<lparr>year = 2024, month = 3, day = 15\<rparr> = 0"
  "end_offset Europe_Lisbon_2024 \<lparr>year = 2024, month = 3, day = 15\<rparr> 1 = 3600000"
  by code_simp+

lemma fixed_zone_offsets [simp]:
  "start_offset (fixed_zone off) d = off" "end_offset (fixed_zone off) d m = off"
  by (simp_all add: start_offset_def end_offset_def fixed_zone_def)

section \<open>Facts about the expiry test\<close>

lemma select_student_snd:
  "snd (select_student e sid s) = send (Profiles, SELECT) s"
  by (simp add: select_student_def Let_def split: option.splits)







section \<open>Facts about deleting a plan\<close>

lemma select_active_snd:
  "snd (select_active_student_plans e planId s) = send (StudentPlans, SELECT) s"
  by (simp add: select_active_student_plans_def Let_def)

lemma delete_plan_eq:
  "delete_plan e planId s =
     (if rejects e (Plans, DELETE) then (Inl StoreError, send (Plans, DELETE) s)
      else (Inr (), (send (Plans, DELETE) s)
              \<lparr>plans := filter (\<lambda>p. pl_id p \<noteq> planId) (plans s),
               student_plans := filter (\<lambda>sp. sp_plan_id sp \<noteq> planId) (student_plans s)\<rparr>))"
  by (simp add: delete_plan_def Let_def)

section \<open>Facts about the effects of a check-in\<close>

text \<open>The row a check-in inserts.\<close>

definition new_row :: "env \<Rightarrow> string \<Rightarrow> check_in" where
  "new_row e sid = \<lparr>ci_id = fresh_id e, ci_student_id = sid, ci_check_in_time = stamp e\<rparr>"

lemma CheckIn_processCheckIn_cases:
  "(\<exists>err. CheckIn_processCheckIn e q s = (Failed err, s)) \<or>
   (\<exists>err. CheckIn_processCheckIn e q s = (Failed err, send (Profiles, SELECT) s)) \<or>
   (\<exists>err. CheckIn_processCheckIn e q s =
      (Failed err, send (CheckIns, INSERT) (send (Profiles, SELECT) s))) \<or>
   (\<exists>info sid. CheckIn_processCheckIn e q s =
      (CheckedIn info, (send (CheckIns, INSERT) (send (Profiles, SELECT) s))
         \<lparr>check_ins := check_ins s @ [new_row e sid]\<rparr>))"
proof (cases "extract_student_id q")
  case (Inl err)
  then show ?thesis by (simp add: CheckIn_processCheckIn_def)
next
  case (Inr sid)
  obtain x s1 where sel: "select_student e sid s = (x, s1)" by (cases "select_student e sid s")
  then have s1: "s1 = send (Profiles, SELECT) s"
    using select_student_snd [of e sid s] by simp
  show ?thesis
  proof (cases x)
    case None
    with Inr sel s1 show ?thesis by (simp add: CheckIn_processCheckIn_def)
  next
    case (Some pr)
    obtain student sps where pr: "pr = (student, sps)" by (cases pr)
    show ?thesis
    proof (cases "find (\<lambda>sp. sp_status sp = ''active'') sps")
      case None
      with Inr sel s1 Some pr show ?thesis by (simp add: CheckIn_processCheckIn_def)
    next
      case act: (Some activePlan)
      show ?thesis
      proof (cases "Date_parse (sp_end_date activePlan) < today e")
        case True
        with Inr sel s1 Some pr act show ?thesis by (simp add: CheckIn_processCheckIn_def)
      next
        case False
        with Inr sel s1 Some pr act show ?thesis
          by (cases "rejects e (CheckIns, INSERT)")
             (auto simp add: CheckIn_processCheckIn_def insert_check_in_eq new_row_def)
      qed
    qed
  qed
qed

text \<open>The student page: nothing sent; or the insert refused; or the row inserted, with the
  success toast or, the joined plan missing, with the error toast.\<close>

lemma StudentCheckIn_processCheckIn_cases:
  "(\<exists>r. (r = Skipped \<or> (\<exists>err. r = Failed err)) \<and>
        StudentCheckIn_processCheckIn e prof sp j s = (r, s)) \<or>
   (\<exists>err. StudentCheckIn_processCheckIn e prof sp j s
      = (Failed err, send (CheckIns, INSERT) s)) \<or>
   (\<exists>r sid. (j = None \<longrightarrow> r = Failed NullRead) \<and> (j \<noteq> None \<longrightarrow> (\<exists>info. r = CheckedIn info)) \<and>
      StudentCheckIn_processCheckIn e prof sp j s =
        (r, (send (CheckIns, INSERT) s)\<lparr>check_ins := check_ins s @ [new_row e sid]\<rparr>))"
proof (cases prof)
  case None
  then show ?thesis by (simp add: StudentCheckIn_processCheckIn_def)
next
  case p: (Some p)
  show ?thesis
  proof (cases sp)
    case None
    with p show ?thesis by (simp add: StudentCheckIn_processCheckIn_def)
  next
    case (Some row)
    show ?thesis
    proof (cases "Date_parse (sp_end_date row) < today e \<or> sp_status row \<noteq> ''active''")
      case True
      with p Some show ?thesis by (auto simp add: StudentCheckIn_processCheckIn_def)
    next
      case ok: False
      show ?thesis
      proof (cases "rejects e (CheckIns, INSERT)")
        case True
        with p Some ok show ?thesis
          by (simp add: StudentCheckIn_processCheckIn_def insert_check_in_eq)
      next
        case False
        with p Some ok show ?thesis
          by (cases j)
             (auto simp add: StudentCheckIn_processCheckIn_def insert_check_in_eq new_row_def)
      qed
    qed
  qed
qed

text \<open>A failed attempt on the student's page that has left its row in the store.\<close>

lemma ex_row_after_failure:
  "StudentCheckIn_processCheckIn ex_env (Some ex_student) (Some ex_student_plan) None ex_store =
     (Failed NullRead,
      ex_store\<lparr>check_ins := [new_row ex_env ''s1''], issued := [(CheckIns, INSERT)]\<rparr>)"
  by (simp add: StudentCheckIn_processCheckIn_def insert_check_in_eq ex_student_plan_def
      ex_end_date_ms ex_env_def ex_student_def ex_store_def new_row_def send_def)

lemma confirmDelete_effect:
  "profiles (snd (CheckInHistoryDialog_confirmDelete e sel s)) = profiles s \<and>
   plans (snd (CheckInHistoryDialog_confirmDelete e sel s)) = plans s \<and>
   student_plans (snd (CheckInHistoryDialog_confirmDelete e sel s)) = student_plans s \<and>
   (check_ins (snd (CheckInHistoryDialog_confirmDelete e sel s)) = check_ins s \<or>
    (\<exists>c. sel = Some c \<and> check_ins (snd (CheckInHistoryDialog_confirmDelete e sel s))
       = filter (\<lambda>r. ci_id r \<noteq> ci_id c) (check_ins s)))"
proof (cases sel)
  case None
  then show ?thesis
    by (simp add: CheckInHistoryDialog_confirmDelete_def)
next
  case (Some c)
  then show ?thesis
    by (cases "rejects e (CheckIns, DELETE)")
       (simp_all add: CheckInHistoryDialog_confirmDelete_def Let_def)
qed

definition ex_env_late :: env where
  "ex_env_late = ex_env\<lparr>called := 1707523200000, today := 1707523200000, stamp := 1707523200002\<rparr>"

section \<open>Facts about the requests and the check-in rows of a run\<close>

lemma sent_eq: "issued (run e c s) = issued s @ new \<Longrightarrow> sent e c s = new"
  by (simp add: sent_def)

lemma remove_profiles_tables [simp]:
  "issued (remove_profiles gone s) = issued s"
  "plans (remove_profiles gone s) = plans s"
  "check_ins (remove_profiles gone s) =
     filter (\<lambda>r. ci_student_id r \<notin> p_id ` {p \<in> set (profiles s). gone p}) (check_ins s)"
  by (simp_all add: remove_profiles_def Let_def)

text \<open>What a run is said to do here: its requests are added to the log, none of them is an
  update of the check-ins, an insert comes from a check-in function only and a delete from
  the history dialog only; its check-in rows are the rows from before, or those and one new
  row (a check-in function), or some of those (the history dialog, the delete of a
  student).\<close>

definition effect_ok :: "env \<Rightarrow> call \<Rightarrow> store \<Rightarrow> bool" where
  "effect_ok e c s =
     (issued (run e c s) = issued s @ sent e c s \<and>
      (CheckIns, UPDATE) \<notin> set (sent e c s) \<and>
      ((CheckIns, INSERT) \<in> set (sent e c s) \<longrightarrow> is_check_in c) \<and>
      ((CheckIns, DELETE) \<in> set (sent e c s) \<longrightarrow> is_history_delete c) \<and>
      (check_ins (run e c s) = check_ins s \<or>
       is_check_in c \<and> (\<exists>sid. check_ins (run e c s) = check_ins s @ [new_row e sid]) \<or>
       (is_history_delete c \<or> is_student_delete c) \<and>
         (\<exists>keep. check_ins (run e c s) = filter keep (check_ins s))))"

text \<open>A run that sends the requests \<open>new\<close>, none of them to the check-ins other than to
  read them, and leaves the check-in rows alone.\<close>

lemma quiet_run:
  assumes "issued (run e c s) = issued s @ new"
    and "check_ins (run e c s) = check_ins s"
    and "(CheckIns, UPDATE) \<notin> set new" "(CheckIns, INSERT) \<notin> set new"
      "(CheckIns, DELETE) \<notin> set new"
  shows "effect_ok e c s"
  using assms by (simp add: effect_ok_def sent_eq [OF assms(1)])

lemma effect_CheckIn: "effect_ok e (CheckIn_processCheckIn_call q) s"
proof -
  have "\<exists>new. issued (run e (CheckIn_processCheckIn_call q) s) = issued s @ new \<and>
      (CheckIns, UPDATE) \<notin> set new \<and> (CheckIns, DELETE) \<notin> set new \<and>
      (check_ins (run e (CheckIn_processCheckIn_call q) s) = check_ins s \<or>
       (\<exists>sid. check_ins (run e (CheckIn_processCheckIn_call q) s) = check_ins s @ [new_row e sid]))"
    using CheckIn_processCheckIn_cases [of e q s]
  proof (elim disjE exE)
    fix err assume "CheckIn_processCheckIn e q s = (Failed err, s)"
    then show ?thesis by (intro exI [of _ "[]"]) simp
  next
    fix err assume "CheckIn_processCheckIn e q s = (Failed err, send (Profiles, SELECT) s)"
    then show ?thesis by (intro exI [of _ "[(Profiles, SELECT)]"]) simp
  next
    fix err assume "CheckIn_processCheckIn e q s =
      (Failed err, send (CheckIns, INSERT) (send (Profiles, SELECT) s))"
    then show ?thesis by (intro exI [of _ "[(Profiles, SELECT), (CheckIns, INSERT)]"]) simp
  next
    fix info sid assume "CheckIn_processCheckIn e q s =
      (CheckedIn info, (send (CheckIns, INSERT) (send (Profiles, SELECT) s))
         \<lparr>check_ins := check_ins s @ [new_row e sid]\<rparr>)"
    then show ?thesis by (intro exI [of _ "[(Profiles, SELECT), (CheckIns, INSERT)]"]) auto
  qed
  then obtain new where n: "issued (run e (CheckIn_processCheckIn_call q) s) = issued s @ new"
      "(CheckIns, UPDATE) \<notin> set new" "(CheckIns, DELETE) \<notin> set new"
      "check_ins (run e (CheckIn_processCheckIn_call q) s) = check_ins s \<or>
       (\<exists>sid. check_ins (run e (CheckIn_processCheckIn_call q) s) = check_ins s @ [new_row e sid])"
    by blast
  then show ?thesis
    unfolding effect_ok_def sent_eq [OF n(1)] by simp
qed

lemma effect_StudentCheckIn: "effect_ok e (StudentCheckIn_processCheckIn_call p sp j) s"
proof -
  let ?c = "StudentCheckIn_processCheckIn_call p sp j"
  have "\<exists>new. issued (run e ?c s) = issued s @ new \<and>
      (CheckIns, UPDATE) \<notin> set new \<and> (CheckIns, DELETE) \<notin> set new \<and>
      (check_ins (run e ?c s) = check_ins s \<or>
       (\<exists>sid. check_ins (run e ?c s) = check_ins s @ [new_row e sid]))"
    using StudentCheckIn_processCheckIn_cases [of e p sp j s]
  proof (elim disjE exE conjE)
    fix r assume "StudentCheckIn_processCheckIn e p sp j s = (r, s)"
    then show ?thesis by (intro exI [of _ "[]"]) simp
  next
    fix r err assume "StudentCheckIn_processCheckIn e p sp j s = (r, s)"
    then show ?thesis by (intro exI [of _ "[]"]) simp
  next
    fix err assume "StudentCheckIn_processCheckIn e p sp j s
      = (Failed err, send (CheckIns, INSERT) s)"
    then show ?thesis by (intro exI [of _ "[(CheckIns, INSERT)]"]) simp
  next
    fix r sid assume "StudentCheckIn_processCheckIn e p sp j s =
        (r, (send (CheckIns, INSERT) s)\<lparr>check_ins := check_ins s @ [new_row e sid]\<rparr>)"
    then show ?thesis by (intro exI [of _ "[(CheckIns, INSERT)]"]) auto
  qed
  then obtain new where n: "issued (run e ?c s) = issued s @ new"
      "(CheckIns, UPDATE) \<notin> set new" "(CheckIns, DELETE) \<notin> set new"
      "check_ins (run e ?c s) = check_ins s \<or>
       (\<exists>sid. check_ins (run e ?c s) = check_ins s @ [new_row e sid])"
    by blast
  then show ?thesis
    unfolding effect_ok_def sent_eq [OF n(1)] by simp
qed

lemma effect_confirmDelete: "effect_ok e (CheckInHistoryDialog_confirmDelete_call sel) s"
proof -
  let ?c = "CheckInHistoryDialog_confirmDelete_call sel"
  have i: "\<exists>new. issued (run e ?c s) = issued s @ new \<and>
      (CheckIns, UPDATE) \<notin> set new \<and> (CheckIns, INSERT) \<notin> set new"
  proof (cases sel)
    case None
    then show ?thesis
      by (intro exI [of _ "[]"]) (simp add: CheckInHistoryDialog_confirmDelete_def)
  next
    case (Some c)
    show ?thesis
    proof (cases "rejects e (CheckIns, DELETE)")
      case True
      with Some show ?thesis
        by (intro exI [of _ "[(CheckIns, DELETE)]"])
           (simp add: CheckInHistoryDialog_confirmDelete_def Let_def)
    next
      case False
      with Some show ?thesis
        by (intro exI [of _ "[(CheckIns, DELETE), (CheckIns, SELECT)]"])
           (simp add: CheckInHistoryDialog_confirmDelete_def Let_def)
    qed
  qed
  have "\<exists>keep. check_ins (run e ?c s) = filter keep (check_ins s)"
    using confirmDelete_effect [of e sel s]
  proof (elim conjE disjE exE)
    assume "check_ins (snd (CheckInHistoryDialog_confirmDelete e sel s)) = check_ins s"
    then show ?thesis by (intro exI [of _ "\<lambda>_. True"]) simp
  next
    fix c assume "check_ins (snd (CheckInHistoryDialog_confirmDelete e sel s))
       = filter (\<lambda>r. ci_id r \<noteq> ci_id c) (check_ins s)"
    then show ?thesis by (intro exI [of _ "\<lambda>r. ci_id r \<noteq> ci_id c"]) simp
  qed
  with i obtain new keep where n: "issued (run e ?c s) = issued s @ new"
      "(CheckIns, UPDATE) \<notin> set new" "(CheckIns, INSERT) \<notin> set new"
      "check_ins (run e ?c s) = filter keep (check_ins s)"
    by blast
  have "\<exists>keep. check_ins (run e ?c s) = filter keep (check_ins s)"
    using n(4) by auto
  with n(1,2,3) show ?thesis
    unfolding effect_ok_def sent_eq [OF n(1)] by simp
qed

lemma effect_DeleteStudent: "effect_ok e (DeleteStudentDialog_handleDelete_call st allowed) s"
proof -
  let ?c = "DeleteStudentDialog_handleDelete_call st allowed"
  have "\<exists>new keep. issued (run e ?c s) = issued s @ new \<and>
      (CheckIns, UPDATE) \<notin> set new \<and> (CheckIns, INSERT) \<notin> set new \<and>
      (CheckIns, DELETE) \<notin> set new \<and>
      check_ins (run e ?c s) = filter keep (check_ins s)"
  proof (cases st)
    case None
    then show ?thesis
      by (intro exI [of _ "[]"] exI [of _ "\<lambda>_. True"])
         (simp add: DeleteStudentDialog_handleDelete_def)
  next
    case (Some row)
    let ?s0 = "auth_admin_deleteUser allowed (p_user_id row) s"
    have a: "issued ?s0 = issued s" "\<exists>k. check_ins ?s0 = filter k (check_ins s)"
    proof -
      show "issued ?s0 = issued s" by (simp add: auth_admin_deleteUser_def)
      show "\<exists>k. check_ins ?s0 = filter k (check_ins s)"
      proof (cases allowed)
        case True
        then show ?thesis by (simp add: auth_admin_deleteUser_def) (rule exI, rule refl)
      next
        case False
        then show ?thesis
          by (intro exI [of _ "\<lambda>_. True"]) (simp add: auth_admin_deleteUser_def)
      qed
    qed
    then obtain k where k: "check_ins ?s0 = filter k (check_ins s)" by blast
    show ?thesis
    proof (cases "rejects e (Profiles, DELETE)")
      case True
      with Some a(1) k show ?thesis
        by (intro exI [of _ "[(Profiles, DELETE)]"] exI [of _ k])
           (simp add: DeleteStudentDialog_handleDelete_def delete_profile_def Let_def)
    next
      case False
      with Some a(1) k show ?thesis
        by (intro exI [of _ "[(Profiles, DELETE)]"]
              exI [of _ "\<lambda>r. k r \<and> ci_student_id r \<notin> p_id ` {p \<in> set (profiles ?s0). p_id p = p_id row}"])
           (simp add: DeleteStudentDialog_handleDelete_def delete_profile_def Let_def)
    qed
  qed
  then obtain new keep where n: "issued (run e ?c s) = issued s @ new"
      "(CheckIns, UPDATE) \<notin> set new" "(CheckIns, INSERT) \<notin> set new"
      "(CheckIns, DELETE) \<notin> set new"
      "check_ins (run e ?c s) = filter keep (check_ins s)"
    by blast
  have "\<exists>keep. check_ins (run e ?c s) = filter keep (check_ins s)"
    using n(5) by auto
  with n(1,2,3,4) show ?thesis
    unfolding effect_ok_def sent_eq [OF n(1)] by simp
qed

lemma ask_facts [simp]:
  "fst (ask e r s) = (\<not> rejects e r)" "snd (ask e r s) = send r s"
  by (simp_all add: ask_def)

lemma write_facts [simp]:
  "issued (snd (update_profiles e m f s)) = issued s @ [(Profiles, UPDATE)]"
  "check_ins (snd (update_profiles e m f s)) = check_ins s"
  "issued (snd (insert_profile e p s)) = issued s @ [(Profiles, INSERT)]"
  "check_ins (snd (insert_profile e p s)) = check_ins s"
  "issued (snd (update_plans e mp fp s)) = issued s @ [(Plans, UPDATE)]"
  "check_ins (snd (update_plans e mp fp s)) = check_ins s"
  "issued (snd (insert_plan e pl s)) = issued s @ [(Plans, INSERT)]"
  "check_ins (snd (insert_plan e pl s)) = check_ins s"
  "issued (snd (update_student_plans e ms fs s)) = issued s @ [(StudentPlans, UPDATE)]"
  "check_ins (snd (update_student_plans e ms fs s)) = check_ins s"
  "issued (snd (insert_student_plan e sp s)) = issued s @ [(StudentPlans, INSERT)]"
  "check_ins (snd (insert_student_plan e sp s)) = check_ins s"
  by (simp_all add: update_profiles_def insert_profile_def update_plans_def insert_plan_def
      update_student_plans_def insert_student_plan_def Let_def)

lemma auth_signUp_facts [simp]:
  "issued (auth_signUp a created s) = issued s"
  "check_ins (auth_signUp a created s) = check_ins s"
  by (simp_all add: auth_signUp_def split: auth_answer.splits)

lemma DeletePlanDialog_quiet:
  "check_ins (snd (DeletePlanDialog_handleDelete e p s)) = check_ins s"
  "\<exists>new. issued (snd (DeletePlanDialog_handleDelete e p s)) = issued s @ new \<and>
     set new \<subseteq> {(StudentPlans, SELECT), (Plans, DELETE)}"
proof -
  show "check_ins (snd (DeletePlanDialog_handleDelete e p s)) = check_ins s"
    by (cases p)
       (simp_all add: DeletePlanDialog_handleDelete_def select_active_student_plans_def
          delete_plan_eq Let_def)
  show "\<exists>new. issued (snd (DeletePlanDialog_handleDelete e p s)) = issued s @ new \<and>
     set new \<subseteq> {(StudentPlans, SELECT), (Plans, DELETE)}"
  proof (cases p)
    case None
    then show ?thesis
      by (intro exI [of _ "[]"]) (simp add: DeletePlanDialog_handleDelete_def)
  next
    case (Some pl)
    show ?thesis
    proof (cases "rejects e (StudentPlans, SELECT) \<or>
        filter (\<lambda>sp. sp_plan_id sp = pl_id pl \<and> sp_status sp = ''active'') (student_plans s) \<noteq> []")
      case True
      with Some show ?thesis
        by (intro exI [of _ "[(StudentPlans, SELECT)]"])
           (auto simp add: DeletePlanDialog_handleDelete_def select_active_student_plans_def Let_def)
    next
      case False
      with Some show ?thesis
        by (intro exI [of _ "[(StudentPlans, SELECT), (Plans, DELETE)]"])
           (simp add: DeletePlanDialog_handleDelete_def select_active_student_plans_def
              delete_plan_eq Let_def)
    qed
  qed
qed

lemma effect_DeletePlan: "effect_ok e (DeletePlanDialog_handleDelete_call p) s"
proof -
  obtain new where n: "issued (snd (DeletePlanDialog_handleDelete e p s)) = issued s @ new"
      "set new \<subseteq> {(StudentPlans, SELECT), (Plans, DELETE)}"
    using DeletePlanDialog_quiet(2) [of e p s] by blast
  show ?thesis
  proof (rule quiet_run [of _ _ _ new])
    show "issued (run e (DeletePlanDialog_handleDelete_call p) s) = issued s @ new"
      using n(1) by simp
    show "check_ins (run e (DeletePlanDialog_handleDelete_call p) s) = check_ins s"
      by (simp add: DeletePlanDialog_quiet(1))
    show "(CheckIns, UPDATE) \<notin> set new" "(CheckIns, INSERT) \<notin> set new"
      "(CheckIns, DELETE) \<notin> set new"
      using n(2) by auto
  qed
qed

text \<open>The functions that read only.\<close>

lemma effect_reads:
  "effect_ok e (StudentLoginForm_onSubmit_call a) s"
  "effect_ok e (Login_onTeacherLogin_call a) s"
  "effect_ok e (Login_onStudentLogin_call a) s"
  "effect_ok e Students_fetchStudents_call s"
  "effect_ok e Plans_fetchPlans_call s"
  "effect_ok e ManageStudentPlanDialog_fetchPlans_call s"
  "effect_ok e CheckInHistoryDialog_fetchCheckIns_call s"
  "effect_ok e Dashboard_fetchStats_call s"
  "effect_ok e Reports_fetchReports_call s"
  "effect_ok e (StudentDashboard_fetchStudentData_call p) s"
  "effect_ok e (StudentCheckIn_fetchStudentPlan_call p) s"
  "effect_ok e (StudentPlan_fetchStudentPlan_call p) s"
  "effect_ok e (FaceRecognitionCamera_performFaceRecognition_call refs ctx) s"
  "effect_ok e (StudentWorkoutDialog_fetchWorkoutSheets_call h) s"
  "effect_ok e (WorkoutSheetDialog_fetchExercises_call h) s"
  "effect_ok e (StudentWorkout_fetchWorkoutSheets_call h) s"
  by (simp_all add: effect_ok_def sent_def StudentLoginForm_onSubmit_def Login_onTeacherLogin_def
      Login_onStudentLogin_def Students_fetchStudents_def Plans_fetchPlans_def
      ManageStudentPlanDialog_fetchPlans_def CheckInHistoryDialog_fetchCheckIns_def
      Dashboard_fetchStats_def Reports_fetchReports_def StudentDashboard_fetchStudentData_def
      StudentCheckIn_fetchStudentPlan_def StudentPlan_fetchStudentPlan_def
      performFaceRecognition_def StudentWorkoutDialog_fetchWorkoutSheets_def
      WorkoutSheetDialog_fetchExercises_def StudentWorkout_fetchWorkoutSheets_def Let_def
      split: auth_answer.splits list.splits)

text \<open>The functions that write to other tables.\<close>

lemma effect_writes:
  "effect_ok e (Login_onSignup_call a created n c) s"
  "effect_ok e (AddStudentDialog_onSubmit_call a created n c) s"
  "effect_ok e (EditStudentDialog_onSubmit_call st n c) s"
  "effect_ok e (Profile_onUpdateProfile_call u p n c) s"
  "effect_ok e (Profile_handleFaceCapture_call p enc) s"
  "effect_ok e (Plans_togglePlanStatus_call i cur) s"
  "effect_ok e (AddPlanDialog_onSubmit_call n m) s"
  "effect_ok e (EditPlanDialog_onSubmit_call pl n m act) s"
  "effect_ok e (ManageStudentPlanDialog_onSubmit_call st curPlan form) s"
  "effect_ok e (StudentWorkoutDialog_handleDeleteWorkout_call conf h) s"
  "effect_ok e (StudentWorkoutDialog_toggleWorkoutStatus_call h) s"
  "effect_ok e (WorkoutSheetDialog_handleUpdateWorkoutSheet_call h r b) s"
  "effect_ok e (WorkoutSheetDialog_saveExercises_call h r any) s"
  "effect_ok e (AddWorkoutSheetDialog_handleSubmit_call b h) s"
  by (simp_all add: effect_ok_def sent_def Login_onSignup_def AddStudentDialog_onSubmit_def
      EditStudentDialog_onSubmit_def Profile_onUpdateProfile_def Profile_handleFaceCapture_def
      Plans_togglePlanStatus_def Plans_fetchPlans_def AddPlanDialog_onSubmit_def
      EditPlanDialog_onSubmit_def ManageStudentPlanDialog_onSubmit_def
      StudentWorkoutDialog_handleDeleteWorkout_def StudentWorkoutDialog_toggleWorkoutStatus_def
      StudentWorkoutDialog_fetchWorkoutSheets_def WorkoutSheetDialog_handleUpdateWorkoutSheet_def
      WorkoutSheetDialog_saveExercises_def AddWorkoutSheetDialog_handleSubmit_def Let_def
      split_beta bool.case_eq_if
      split: auth_answer.splits option.splits)

lemma effect_of_run: "effect_ok e c s"
  by (cases c)
     (simp_all only: effect_reads effect_writes effect_CheckIn effect_StudentCheckIn
        effect_confirmDelete effect_DeleteStudent effect_DeletePlan)

text \<open>Deleting a student takes the student's check-in rows along, and sends no request to
  the check-ins.\<close>

definition ex_check_in :: check_in where
  "ex_check_in = \<lparr>ci_id = ''c0'', ci_student_id = ''s1'', ci_check_in_time = 1707120000000\<rparr>"

section \<open>The claims\<close>

text \<open>
  C1 (the code departs from the claim). The claim: encoding a profile id \<open>s\<close> gives
  \<^verbatim>\<open>'KGYM-CHECKIN-' + s\<close>, decoding fails with the invalid-code error on a wrong prefix,
  a wrong second segment or a segment count other than three, and decoding an encoded id
  gives the id back for every profile id, the store's UUIDs with their \<^verbatim>\<open>'-'\<close> included.
  The code cuts the code at every \<^verbatim>\<open>'-'\<close>, so the code of a UUID has seven segments: the
  encoded UUID is rejected as invalid, on the typed-code path and on the camera path, and
  the store is left as it was. (Ids without \<^verbatim>\<open>'-'\<close> do survive: \<open>extract_generated\<close>.)
\<close>

theorem C1_encoded_uuid_is_rejected:
  "extract_student_id (generateStudentQR ''123e4567-e89b-12d3-a456-426614174000'')
     = Inl InvalidQR \<and>
   CheckIn_onRecognized e ''123e4567-e89b-12d3-a456-426614174000'' s = (Failed InvalidQR, s)"
proof -
  have "extract_student_id (generateStudentQR ''123e4567-e89b-12d3-a456-426614174000'')
     = Inl InvalidQR"
    by (simp add: extract_generated)
  then show ?thesis
    by (simp add: CheckIn_onRecognized_def CheckIn_processCheckIn_def)
qed

theorem C1_encoded_uuid_is_rejected_witness:
  "extract_student_id ''KGYM-CHECKIN-123e4567-e89b-12d3-a456-426614174000'' = Inl InvalidQR \<and>
   fst (CheckIn_onRecognized ex_env ''123e4567-e89b-12d3-a456-426614174000'' ex_store)
     = Failed InvalidQR"
  using C1_encoded_uuid_is_rejected [of ex_env ex_store]
  by (simp add: generateStudentQR_def)




text \<open>
  C3 (amended). The claim: for a plan row with stored status active and
  days_remaining = ceil((end_date - today) / 1 day), the resolver returns expired iff
  end_date < today, expiring iff 0 \<le> days_remaining \<le> 7, and active otherwise. The code
  tests \<open>daysUntilExpiry \<le> 0\<close> first, so a row with 0 days remaining is expired, not
  expiring (the counterexample below: at noon of the end date, and at its first instant).
  What holds, for the Students list on the first row flagged active and for the student
  dashboard on the row it fetched: the status is expired iff days_remaining \<le> 0, which is
  iff the end date's first instant (00:00 UTC) is not after the clock reading; expiring iff
  1 \<le> days_remaining \<le> 7; active iff days_remaining > 7.
\<close>

theorem C3_status_of_active_plan:
  assumes "find (\<lambda>sp. sp_status sp = ''active'') rows = Some p"
  shows "let d = days_until (sp_end_date p) now;
             st = status (Students_getStudentStatus now (Some rows));
             st' = status (StudentDashboard_getPlanStatus now (Some p))
         in d = ceil_div (Date_parse (sp_end_date p) - now) msPerDay \<and>
            (st = ''expired'') = (d \<le> 0) \<and>
            (d \<le> 0) = (Date_parse (sp_end_date p) \<le> now) \<and>
            (st = ''expiring'') = (1 \<le> d \<and> d \<le> 7) \<and>
            (st = ''active'') = (7 < d) \<and>
            st' = st"
proof -
  from assms have "rows \<noteq> []" by auto
  with assms have "Students_getStudentStatus now (Some rows) = by_days (days_until (sp_end_date p) now)"
    by (simp add: Students_getStudentStatus_def)
  moreover have "StudentDashboard_getPlanStatus now (Some p) = by_days (days_until (sp_end_date p) now)"
    by (simp add: StudentDashboard_getPlanStatus_def)
  moreover have "(days_until (sp_end_date p) now \<le> 0) = (Date_parse (sp_end_date p) \<le> now)"
    by (simp add: days_until_le_iff)
  ultimately show ?thesis
    by (simp add: status_by_days Let_def days_until_def)
qed

theorem C3_counterexample:
  "days_until (sp_end_date ex_student_plan) 1707566400000 = 0 \<and>
   status (Students_getStudentStatus 1707566400000 (Some [ex_student_plan])) = ''expired'' \<and>
   status (StudentDashboard_getPlanStatus 1707566400000 (Some ex_student_plan)) = ''expired'' \<and>
   Date_parse (sp_end_date ex_student_plan) = 1707523200000 \<and>
   days_until (sp_end_date ex_student_plan) 1707523200000 = 0 \<and>
   status (Students_getStudentStatus 1707523200000 (Some [ex_student_plan])) = ''expired''"
  by (simp add: ex_student_plan_def Students_getStudentStatus_def StudentDashboard_getPlanStatus_def
      ex_days by_days_def ex_end_date_ms)

theorem C3_status_of_active_plan_witness:
  "find (\<lambda>sp. sp_status sp = ''active'') [ex_student_plan] = Some ex_student_plan \<and>
   status (Students_getStudentStatus 1707134400000 (Some [ex_student_plan])) = ''expiring'' \<and>
   days_until (sp_end_date ex_student_plan) 1707134400000 = 5"
proof -
  have h: "find (\<lambda>sp. sp_status sp = ''active'') [ex_student_plan] = Some ex_student_plan"
    by (simp add: ex_student_plan_def)
  have d: "days_until (sp_end_date ex_student_plan) 1707134400000 = 5"
    by (simp add: ex_student_plan_def ex_days)
  show ?thesis
    using C3_status_of_active_plan [OF h, of 1707134400000] h d by (simp add: Let_def)
qed

text \<open>
  C4 (amended). The claim: for every start date and duration of \<open>m \<ge> 1\<close> months the end
  date is a function of its inputs, its month is the start month plus \<open>m\<close> (modulo 12, the
  year carried), and its day is the start day clamped to the last day of that month (start
  2024-01-31, one month: 2024-02-29). The code adds the months with \<^verbatim>\<open>setMonth\<close>, which
  does not clamp: a day the target month does not have runs over into the month after it
  (the counterexample below: 2024-01-31 plus one month is 2024-03-02). What holds, in a runtime
  where local time at 00:00 UTC of the start date is UTC or ahead of it by less than a day,
  and where the offset in force at the local time \<^verbatim>\<open>setMonth\<close> builds is that offset or a
  smaller one, by less than a day (every zone with a constant offset from +00:00 to under
  +24:00 is such a runtime; a zone that changes to daylight-saving time between the two
  dates is not): the result is a function of the start date, the months and the zone; when
  the target month has the start's day, the result is that day in the target month, the
  year carried; otherwise it is the day numbered (start day minus the length of the target
  month) in the following month.
\<close>

theorem C4_end_date_rolls_over:
  assumes "valid_date startDate"
    and "0 \<le> start_offset z startDate" and "start_offset z startDate < msPerDay"
    and "end_offset z startDate m \<le> start_offset z startDate"
    and "start_offset z startDate - end_offset z startDate m < msPerDay"
  shows "calculateEndDate z startDate m =
     (let mon = month startDate - 1 + m;
          ym = year startDate + mon div 12;
          mn = nat (mon mod 12)
      in if day startDate \<le> DaysInMonth ym mn
         then \<lparr>year = ym, month = int mn + 1, day = day startDate\<rparr>
         else \<lparr>year = ym, month = int mn + 2, day = day startDate - DaysInMonth ym mn\<rparr>)"
proof -
  define n0 where
    "n0 = DayFromYear (year startDate)
        + DaysBeforeMonth (year startDate) (nat (month startDate - 1)) + day startDate - 1"
  define off1 where "off1 = start_offset z startDate"
  define off2 where "off2 = end_offset z startDate m"
  define n1 where "n1 = MakeDay (year startDate) (month startDate - 1 + m) (day startDate)"
  have p: "Date_parse startDate = n0 * msPerDay"
    using assms(1) by (simp add: Date_parse_valid n0_def)
  have c: "civil_from_days n0 = startDate"
    unfolding n0_def by (rule civil_of_valid [OF assms(1)])
  have o1: "offset_at_utc z (n0 * msPerDay) = off1"
    by (simp add: off1_def start_offset_def p)
  have r1: "0 \<le> off1" "off1 < msPerDay"
    using assms(2,3) by (simp_all add: off1_def)
  have l: "Day (LocalTime z (n0 * msPerDay)) = n0"
      "TimeWithinDay (LocalTime z (n0 * msPerDay)) = off1"
    using Day_mult_add [OF r1, of n0] by (simp_all add: LocalTime_def o1)
  have g: "getMonth z (n0 * msPerDay) = month startDate - 1"
    by (simp add: getMonth_def l c)
  have o2: "offset_at_local z (n1 * msPerDay + off1) = off2"
    by (simp add: off2_def end_offset_def n1_def off1_def)
  have s: "setMonth z (n0 * msPerDay) (month startDate - 1 + m) = n1 * msPerDay + (off1 - off2)"
    by (simp add: setMonth_def Let_def l c UTC_def n1_def [symmetric] o2)
  have r2: "0 \<le> off1 - off2" "off1 - off2 < msPerDay"
    using assms(4,5) by (simp_all add: off1_def off2_def)
  have d: "1 \<le> day startDate" "day startDate \<le> 31"
    using assms(1) DaysInMonth_bounds(2) [of "year startDate" "nat (month startDate - 1)"]
    by (auto simp add: valid_date_def)
  have "calculateEndDate z startDate m = civil_from_days n1"
    by (simp add: calculateEndDate_def Let_def p g s toISODate_def Day_mult_add(1) [OF r2])
  then show ?thesis
    by (simp add: n1_def civil_MakeDay_overflow [OF d] Let_def)
qed

theorem C4_counterexample:
  "calculateEndDate (fixed_zone 0) \<lparr>year = 2024, month = 1, day = 31\<rparr> 1
     = \<lparr>year = 2024, month = 3, day = 2\<rparr> \<and>
   calculateEndDate (fixed_zone (- 10800000)) \<lparr>year = 2024, month = 1, day = 31\<rparr> 1
     = \<lparr>year = 2024, month = 3, day = 2\<rparr>"
  by code_simp

theorem C4_end_date_rolls_over_witness:
  "valid_date \<lparr>year = 2024, month = 1, day = 10\<rparr> \<and>
   calculateEndDate (fixed_zone 0) \<lparr>year = 2024, month = 1, day = 10\<rparr> 1
     = \<lparr>year = 2024, month = 2, day = 10\<rparr> \<and>
   calculateEndDate (fixed_zone 32400000) \<lparr>year = 2024, month = 11, day = 30\<rparr> 3
     = \<lparr>year = 2025, month = 3, day = 2\<rparr> \<and>
   calculateEndDate Europe_Lisbon_2024 \<lparr>year = 2024, month = 10, day = 15\<rparr> 1
     = \<lparr>year = 2024, month = 11, day = 15\<rparr>"
proof -
  have v: "valid_date \<lparr>year = 2024, month = 1, day = 10\<rparr>"
      "valid_date \<lparr>year = 2024, month = 11, day = 30\<rparr>"
      "valid_date \<lparr>year = 2024, month = 10, day = 15\<rparr>"
    by (simp_all add: valid_date_def DaysInMonth_def)
  have a: "calculateEndDate (fixed_zone 0) \<lparr>year = 2024, month = 1, day = 10\<rparr> 1
     = \<lparr>year = 2024, month = 2, day = 10\<rparr>"
    using C4_end_date_rolls_over [OF v(1), of "fixed_zone 0" 1]
    by (simp add: Let_def DaysInMonth_def InLeapYear_def msPerDay_def)
  have b: "calculateEndDate (fixed_zone 32400000) \<lparr>year = 2024, month = 11, day = 30\<rparr> 3
     = \<lparr>year = 2025, month = 3, day = 2\<rparr>"
    using C4_end_date_rolls_over [OF v(2), of "fixed_zone 32400000" 3]
    by (simp add: Let_def DaysInMonth_def InLeapYear_def msPerDay_def)
  have c: "calculateEndDate Europe_Lisbon_2024 \<lparr>year = 2024, month = 10, day = 15\<rparr> 1
     = \<lparr>year = 2024, month = 11, day = 15\<rparr>"
    using C4_end_date_rolls_over [OF v(3), of Europe_Lisbon_2024 1]
    by (simp add: ex_Lisbon_offsets Let_def DaysInMonth_def InLeapYear_def msPerDay_def)
  from v(1) a b c show ?thesis by simp
qed

text \<open>
  C5 (amended). The claim: for a student none of whose plan rows has stored status active,
  the membership status resolver returns inactive, whatever the dates and the stored
  statuses (inactive or expired) of the rows. This holds for the resolvers that pick the row
  flagged active: \<^verbatim>\<open>getStudentStatus\<close> of the Students list, and \<^verbatim>\<open>getPlanStatus\<close> of the
  student dashboard and of the student check-in page on the row their fetch keeps. The
  StudentPlan page resolves the student's most recent row whatever its flag, and reports
  inactive when that row is stored inactive but expired when it is stored expired
  (the counterexample below).
\<close>

theorem C5_no_active_row:
  assumes "\<forall>sp\<in>set (student_plans s). sp_student_id sp = p_id prof \<longrightarrow> sp_status sp \<noteq> ''active''"
  shows "status (Students_getStudentStatus now
             (Some (filter (\<lambda>sp. sp_student_id sp = p_id prof) (student_plans s)))) = ''inactive'' \<and>
         status (Students_getStudentStatus now None) = ''inactive'' \<and>
         status (StudentDashboard_getPlanStatus now
             (fst (StudentDashboard_fetchStudentData e prof s))) = ''inactive'' \<and>
         status (StudentCheckIn_getPlanStatus now
             (fst (StudentCheckIn_fetchStudentPlan e prof s))) = ''inactive'' \<and>
         (\<forall>row. fst (StudentPlan_fetchStudentPlan e prof s) = Some row \<longrightarrow>
            (sp_status row = ''inactive'' \<longrightarrow>
               status (StudentPlan_getPlanStatus now (Some row)) = ''inactive'') \<and>
            (sp_status row = ''expired'' \<longrightarrow>
               status (StudentPlan_getPlanStatus now (Some row)) = ''expired''))"
proof -
  let ?mine = "filter (\<lambda>sp. sp_student_id sp = p_id prof) (student_plans s)"
  have "\<forall>sp\<in>set ?mine. sp_status sp \<noteq> ''active''" using assms by simp
  then have "find (\<lambda>sp. sp_status sp = ''active'') ?mine = None" by (rule find_active_None)
  then have a: "status (Students_getStudentStatus now (Some ?mine)) = ''inactive''"
    by (simp add: Students_getStudentStatus_def)
  have b: "status (Students_getStudentStatus now None) = ''inactive''"
    by (simp add: Students_getStudentStatus_def)
  have "fst (StudentCheckIn_fetchStudentPlan e prof s) = None"
      "fst (StudentDashboard_fetchStudentData e prof s) = None"
    using filter_active_Nil [OF assms]
    by (simp_all add: StudentCheckIn_fetchStudentPlan_def StudentDashboard_fetchStudentData_def
        Let_def)
  then have c: "status (StudentDashboard_getPlanStatus now
             (fst (StudentDashboard_fetchStudentData e prof s))) = ''inactive''"
     "status (StudentCheckIn_getPlanStatus now
             (fst (StudentCheckIn_fetchStudentPlan e prof s))) = ''inactive''"
    by (simp_all add: StudentDashboard_getPlanStatus_def StudentCheckIn_getPlanStatus_def)
  have d: "\<forall>row. fst (StudentPlan_fetchStudentPlan e prof s) = Some row \<longrightarrow>
            (sp_status row = ''inactive'' \<longrightarrow>
               status (StudentPlan_getPlanStatus now (Some row)) = ''inactive'') \<and>
            (sp_status row = ''expired'' \<longrightarrow>
               status (StudentPlan_getPlanStatus now (Some row)) = ''expired'')"
    by (simp add: StudentPlan_getPlanStatus_def)
  from a b c d show ?thesis by blast
qed

theorem C5_counterexample:
  "sp_status ex_expired_plan \<noteq> ''active'' \<and>
   fst (StudentPlan_fetchStudentPlan ex_env ex_student (ex_store\<lparr>student_plans := [ex_expired_plan]\<rparr>))
     = Some ex_expired_plan \<and>
   status (StudentPlan_getPlanStatus 1707134400000
     (fst (StudentPlan_fetchStudentPlan ex_env ex_student
        (ex_store\<lparr>student_plans := [ex_expired_plan]\<rparr>)))) = ''expired'' \<and>
   Date_parse (sp_end_date ex_expired_plan) = 1707523200000"
  by (simp add: ex_expired_plan_def StudentPlan_fetchStudentPlan_def ex_env_def ex_student_def
      ex_store_def StudentPlan_getPlanStatus_def Let_def ex_end_date_ms)

theorem C5_no_active_row_witness:
  "status (Students_getStudentStatus 1707134400000 (Some [ex_expired_plan])) = ''inactive'' \<and>
   status (StudentDashboard_getPlanStatus 1707134400000
     (fst (StudentDashboard_fetchStudentData ex_env ex_student
        (ex_store\<lparr>student_plans := [ex_expired_plan]\<rparr>)))) = ''inactive'' \<and>
   status (StudentPlan_getPlanStatus 1707134400000 (Some ex_expired_plan)) = ''expired''"
proof -
  let ?s = "ex_store\<lparr>student_plans := [ex_expired_plan]\<rparr>"
  have h: "\<forall>sp\<in>set (student_plans ?s).
      sp_student_id sp = p_id ex_student \<longrightarrow> sp_status sp \<noteq> ''active''"
    by (simp add: ex_expired_plan_def)
  have f: "fst (StudentPlan_fetchStudentPlan ex_env ex_student ?s) = Some ex_expired_plan"
    by (simp add: ex_expired_plan_def StudentPlan_fetchStudentPlan_def ex_env_def ex_student_def
      ex_store_def Let_def)
  have m: "filter (\<lambda>sp. sp_student_id sp = p_id ex_student) (student_plans ?s) = [ex_expired_plan]"
    by (simp add: ex_expired_plan_def ex_student_def)
  have st: "sp_status ex_expired_plan = ''expired''" by (simp add: ex_expired_plan_def)
  show ?thesis
    using C5_no_active_row [OF h, of 1707134400000 ex_env] f m st by simp
qed

text \<open>
  C6. Deleting a plan from the dialog: when at least one student-plan row refers to the plan
  with stored status active, the only request sent is the query for those rows, no delete
  request is sent, the plans and student-plans tables are as they were and the outcome is
  the blocked one or, the query refused, an error. When no such row exists and the store
  answers the query, the delete request is sent after the query; unless the store refuses
  it, the outcome is success, the plans table has lost exactly the rows with the plan's id
  and, by the cascade the store declares, the student-plans table has lost exactly the rows
  that refer to the plan (none of them active). A run that does not end in success leaves
  both tables as they were; no run touches profiles or check-ins.
\<close>

theorem C6_plan_delete_gate:
  assumes "DeletePlanDialog_handleDelete e (Some p) s = (r, s')"
  shows "((\<exists>sp\<in>set (student_plans s). sp_plan_id sp = pl_id p \<and> sp_status sp = ''active'') \<longrightarrow>
            issued s' = issued s @ [(StudentPlans, SELECT)] \<and> plans s' = plans s \<and>
            student_plans s' = student_plans s \<and>
            r = (if rejects e (StudentPlans, SELECT) then Errored StoreError else Blocked)) \<and>
         (\<not> (\<exists>sp\<in>set (student_plans s). sp_plan_id sp = pl_id p \<and> sp_status sp = ''active'') \<and>
          \<not> rejects e (StudentPlans, SELECT) \<longrightarrow>
            issued s' = issued s @ [(StudentPlans, SELECT), (Plans, DELETE)] \<and>
            (\<not> rejects e (Plans, DELETE) \<longrightarrow>
               r = Done \<and> plans s' = filter (\<lambda>q. pl_id q \<noteq> pl_id p) (plans s) \<and>
               (\<forall>q\<in>set (plans s'). pl_id q \<noteq> pl_id p) \<and>
               student_plans s' = filter (\<lambda>sp. sp_plan_id sp \<noteq> pl_id p) (student_plans s))) \<and>
         (r \<noteq> Done \<longrightarrow> plans s' = plans s \<and> student_plans s' = student_plans s) \<and>
         check_ins s' = check_ins s \<and> profiles s' = profiles s"
proof (cases "rejects e (StudentPlans, SELECT)")
  case True
  with assms have "r = Errored StoreError" "s' = send (StudentPlans, SELECT) s"
    by (simp_all add: DeletePlanDialog_handleDelete_def select_active_student_plans_def Let_def)
  with True show ?thesis by simp
next
  case ok: False
  let ?act = "filter (\<lambda>sp. sp_plan_id sp = pl_id p \<and> sp_status sp = ''active'') (student_plans s)"
  have sel: "select_active_student_plans e (pl_id p) s = (Inr ?act, send (StudentPlans, SELECT) s)"
    using ok by (simp add: select_active_student_plans_def Let_def)
  show ?thesis
  proof (cases "?act = []")
    case False
    then have ex: "\<exists>sp\<in>set (student_plans s). sp_plan_id sp = pl_id p \<and> sp_status sp = ''active''"
      by (auto simp add: filter_empty_conv)
    from False assms have "r = Blocked" "s' = send (StudentPlans, SELECT) s"
      by (simp_all add: DeletePlanDialog_handleDelete_def sel)
    with ex ok show ?thesis by simp
  next
    case True
    then have nex: "\<not> (\<exists>sp\<in>set (student_plans s). sp_plan_id sp = pl_id p \<and> sp_status sp = ''active'')"
      by (auto simp add: filter_empty_conv)
    show ?thesis
    proof (cases "rejects e (Plans, DELETE)")
      case rej: True
      with True assms have "r = Errored StoreError"
          "s' = send (Plans, DELETE) (send (StudentPlans, SELECT) s)"
        by (simp_all add: DeletePlanDialog_handleDelete_def sel delete_plan_eq)
      with nex rej show ?thesis by simp
    next
      case acc: False
      with True assms have "r = Done"
          "s' = (send (Plans, DELETE) (send (StudentPlans, SELECT) s))
                  \<lparr>plans := filter (\<lambda>q. pl_id q \<noteq> pl_id p) (plans s),
                   student_plans := filter (\<lambda>sp. sp_plan_id sp \<noteq> pl_id p) (student_plans s)\<rparr>"
        by (simp_all add: DeletePlanDialog_handleDelete_def sel delete_plan_eq)
      with nex acc show ?thesis by simp
    qed
  qed
qed

theorem C6_plan_delete_gate_witness:
  "fst (DeletePlanDialog_handleDelete ex_env (Some ex_plan) ex_store) = Blocked \<and>
   plans (snd (DeletePlanDialog_handleDelete ex_env (Some ex_plan) ex_store)) = [ex_plan] \<and>
   issued (snd (DeletePlanDialog_handleDelete ex_env (Some ex_plan) ex_store))
     = [(StudentPlans, SELECT)] \<and>
   sp_plan_id ex_expired_plan = pl_id ex_plan \<and>
   fst (DeletePlanDialog_handleDelete ex_env (Some ex_plan)
     (ex_store\<lparr>student_plans := [ex_expired_plan]\<rparr>)) = Done \<and>
   plans (snd (DeletePlanDialog_handleDelete ex_env (Some ex_plan)
     (ex_store\<lparr>student_plans := [ex_expired_plan]\<rparr>))) = [] \<and>
   student_plans (snd (DeletePlanDialog_handleDelete ex_env (Some ex_plan)
     (ex_store\<lparr>student_plans := [ex_expired_plan]\<rparr>))) = [] \<and>
   issued (snd (DeletePlanDialog_handleDelete ex_env (Some ex_plan)
     (ex_store\<lparr>student_plans := [ex_expired_plan]\<rparr>))) = [(StudentPlans, SELECT), (Plans, DELETE)]"
proof -
  let ?s2 = "ex_store\<lparr>student_plans := [ex_expired_plan]\<rparr>"
  let ?r1 = "DeletePlanDialog_handleDelete ex_env (Some ex_plan) ex_store"
  let ?r2 = "DeletePlanDialog_handleDelete ex_env (Some ex_plan) ?s2"
  have h1: "?r1 = (fst ?r1, snd ?r1)" and h2: "?r2 = (fst ?r2, snd ?r2)" by simp_all
  have x: "\<exists>sp\<in>set (student_plans ex_store). sp_plan_id sp = pl_id ex_plan \<and> sp_status sp = ''active''"
    by (simp add: ex_store_def ex_student_plan_def ex_plan_def)
  have y: "\<not> (\<exists>sp\<in>set (student_plans ?s2). sp_plan_id sp = pl_id ex_plan \<and> sp_status sp = ''active'')"
    by (simp add: ex_expired_plan_def)
  have n: "\<not> rejects ex_env (StudentPlans, SELECT)" "\<not> rejects ex_env (Plans, DELETE)"
    by (simp_all add: ex_env_def)
  have i: "issued ex_store = []" "plans ex_store = [ex_plan]"
      "issued ?s2 = []" "plans ?s2 = [ex_plan]" "student_plans ?s2 = [ex_expired_plan]"
    by (simp_all add: ex_store_def)
  have k: "sp_plan_id ex_expired_plan = pl_id ex_plan"
    by (simp add: ex_expired_plan_def ex_plan_def)
  from C6_plan_delete_gate [OF h1] x n i(1,2)
  have 1: "fst ?r1 = Blocked" "issued (snd ?r1) = [(StudentPlans, SELECT)]"
      "plans (snd ?r1) = [ex_plan]"
    by simp_all
  from C6_plan_delete_gate [OF h2] y n i(3,4,5) k
  have 2: "fst ?r2 = Done" "issued (snd ?r2) = [(StudentPlans, SELECT), (Plans, DELETE)]"
      "plans (snd ?r2) = []" "student_plans (snd ?r2) = []"
    by simp_all
  from 1 2 k show ?thesis by simp
qed

text \<open>
  C7 (amended). The claim: the password the add-student dialog passes to the sign-up
  operation is the first six digits of the CPF entered; the student login signs in with the
  digit characters of the CPF entered. The dialog accepts any CPF of six characters or more,
  and falls back to the fixed password 123456 when it holds fewer than six digits
  (the counterexample below). What holds: the sign-up password is the first six digits when the
  CPF has at least six digits and 123456 otherwise; the login password is all the digits of
  the CPF entered (not cut to six).
\<close>

theorem C7_passwords:
  "cr_password (AddStudentDialog_signUp email cpf) =
     (if 6 \<le> length (strip_non_digits cpf) then take 6 (strip_non_digits cpf) else ''123456'') \<and>
   cr_password (Login_onStudentLogin_signIn email' cpf') = strip_non_digits cpf'"
proof -
  have "AddStudentDialog_password cpf =
     (if 6 \<le> length (strip_non_digits cpf) then take 6 (strip_non_digits cpf) else ''123456'')"
    by (auto simp add: AddStudentDialog_password_def Let_def)
  then show ?thesis
    by (simp add: AddStudentDialog_signUp_def Login_onStudentLogin_signIn_def)
qed

theorem C7_counterexample:
  "cpf_accepted ''12.345'' \<and>
   strip_non_digits ''12.345'' = ''12345'' \<and>
   cr_password (AddStudentDialog_signUp ''ana@kgym.test'' ''12.345'') = ''123456''"
  by (simp add: cpf_accepted_def ex_digits AddStudentDialog_signUp_def
      AddStudentDialog_password_def Let_def)

theorem C7_passwords_witness:
  "cr_password (AddStudentDialog_signUp ''ana@kgym.test'' ''123.456.789-09'') = ''123456'' \<and>
   cr_password (Login_onStudentLogin_signIn ''ana@kgym.test'' ''123.456.789-09'') = ''12345678909''"
  using C7_passwords [of "''ana@kgym.test''" "''123.456.789-09''" "''ana@kgym.test''" "''123.456.789-09''"]
  by (simp add: ex_digits)

text \<open>
  C8 (amended). The claim: no operation of the application ever sends an update of the
  check-ins table; check-in rows are only inserted, by a successful check-in, or deleted, by
  the history dialog; and a successful check-in writes to the check-ins table only, leaving
  every student-plan row as it was, also after the expiry threshold of the display. One part
  does not hold: the dialog that deletes a student removes the student's profile, and the
  store, by the cascade it declares, removes the check-in rows of that student with it,
  without any request to the check-ins table (the counterexample below). What holds, for one
  run of any function of the application that calls the store:

  \<^item> it sends no update of the check-ins table; an insert into it is sent by the two
    check-in functions only, and a delete from it by the history dialog only;

  \<^item> no check-in row is changed in place: the rows after the run are the rows from before;
    or, in a check-in function, those and one new row at the end; or, in the delete of the
    history dialog and in the delete of a student, some of those, in their order;

  \<^item> a check-in run, on either page, leaves profiles, plans and student plans (stored
    status and dates included) as they were, and appends exactly one check-in row when it
    succeeds; on the CheckIn page a run that does not succeed appends none.

  (The witness is a check-in that succeeds at the first instant of the end date, when the
  status shown is already expired: the student-plan row stays active.)
\<close>

theorem C8_check_ins_never_updated:
  "(\<forall>c. issued (run e c s) = issued s @ sent e c s \<and>
        (CheckIns, UPDATE) \<notin> set (sent e c s) \<and>
        ((CheckIns, INSERT) \<in> set (sent e c s) \<longrightarrow> is_check_in c) \<and>
        ((CheckIns, DELETE) \<in> set (sent e c s) \<longrightarrow> is_history_delete c) \<and>
        (check_ins (run e c s) = check_ins s \<or>
         is_check_in c \<and> (\<exists>sid. check_ins (run e c s) = check_ins s @ [new_row e sid]) \<or>
         (is_history_delete c \<or> is_student_delete c) \<and>
           (\<exists>keep. check_ins (run e c s) = filter keep (check_ins s)))) \<and>
   profiles (snd (CheckIn_processCheckIn e qrCode s)) = profiles s \<and>
   plans (snd (CheckIn_processCheckIn e qrCode s)) = plans s \<and>
   student_plans (snd (CheckIn_processCheckIn e qrCode s)) = student_plans s \<and>
   (if (\<exists>info. fst (CheckIn_processCheckIn e qrCode s) = CheckedIn info)
    then (\<exists>sid. check_ins (snd (CheckIn_processCheckIn e qrCode s))
            = check_ins s @ [new_row e sid])
    else check_ins (snd (CheckIn_processCheckIn e qrCode s)) = check_ins s) \<and>
   profiles (snd (StudentCheckIn_processCheckIn e prof studentPlan joined s)) = profiles s \<and>
   plans (snd (StudentCheckIn_processCheckIn e prof studentPlan joined s)) = plans s \<and>
   student_plans (snd (StudentCheckIn_processCheckIn e prof studentPlan joined s))
     = student_plans s \<and>
   ((\<exists>info. fst (StudentCheckIn_processCheckIn e prof studentPlan joined s) = CheckedIn info)
      \<longrightarrow> (\<exists>sid. check_ins (snd (StudentCheckIn_processCheckIn e prof studentPlan joined s))
                = check_ins s @ [new_row e sid]))"
proof -
  have runs: "\<forall>c. issued (run e c s) = issued s @ sent e c s \<and>
        (CheckIns, UPDATE) \<notin> set (sent e c s) \<and>
        ((CheckIns, INSERT) \<in> set (sent e c s) \<longrightarrow> is_check_in c) \<and>
        ((CheckIns, DELETE) \<in> set (sent e c s) \<longrightarrow> is_history_delete c) \<and>
        (check_ins (run e c s) = check_ins s \<or>
         is_check_in c \<and> (\<exists>sid. check_ins (run e c s) = check_ins s @ [new_row e sid]) \<or>
         (is_history_delete c \<or> is_student_delete c) \<and>
           (\<exists>keep. check_ins (run e c s) = filter keep (check_ins s)))"
    using effect_of_run [of e _ s] unfolding effect_ok_def by (rule allI)
  have page: "profiles (snd (CheckIn_processCheckIn e qrCode s)) = profiles s \<and>
     plans (snd (CheckIn_processCheckIn e qrCode s)) = plans s \<and>
     student_plans (snd (CheckIn_processCheckIn e qrCode s)) = student_plans s \<and>
     (if (\<exists>info. fst (CheckIn_processCheckIn e qrCode s) = CheckedIn info)
      then (\<exists>sid. check_ins (snd (CheckIn_processCheckIn e qrCode s))
              = check_ins s @ [new_row e sid])
      else check_ins (snd (CheckIn_processCheckIn e qrCode s)) = check_ins s)"
    using CheckIn_processCheckIn_cases [of e qrCode s]
    by (elim disjE exE) auto
  have student: "profiles (snd (StudentCheckIn_processCheckIn e prof studentPlan joined s))
       = profiles s \<and>
     plans (snd (StudentCheckIn_processCheckIn e prof studentPlan joined s)) = plans s \<and>
     student_plans (snd (StudentCheckIn_processCheckIn e prof studentPlan joined s))
       = student_plans s \<and>
     ((\<exists>info. fst (StudentCheckIn_processCheckIn e prof studentPlan joined s) = CheckedIn info)
        \<longrightarrow> (\<exists>sid. check_ins (snd (StudentCheckIn_processCheckIn e prof studentPlan joined s))
                  = check_ins s @ [new_row e sid]))"
    using StudentCheckIn_processCheckIn_cases [of e prof studentPlan joined s]
    by (elim disjE exE conjE) auto
  from runs page student show ?thesis by (elim conjE) (intro conjI; assumption)
qed

theorem C8_counterexample:
  "check_ins (ex_store\<lparr>check_ins := [ex_check_in]\<rparr>) = [ex_check_in] \<and>
   check_ins (DeleteStudentDialog_handleDelete ex_env (Some ex_student) False
                (ex_store\<lparr>check_ins := [ex_check_in]\<rparr>)) = [] \<and>
   issued (DeleteStudentDialog_handleDelete ex_env (Some ex_student) False
             (ex_store\<lparr>check_ins := [ex_check_in]\<rparr>)) = [(Profiles, DELETE)] \<and>
   is_history_delete (DeleteStudentDialog_handleDelete_call (Some ex_student) False) = False"
  by code_simp

theorem C8_check_ins_never_updated_witness:
  "fst (CheckIn_processCheckIn ex_env_late ''KGYM-CHECKIN-s1'' ex_store)
     = CheckedIn \<lparr>lc_student_name = ''Ana'', lc_plan_name = Some ''Mensal''\<rparr> \<and>
   status (Students_getStudentStatus 1707523200002 (Some [ex_student_plan])) = ''expired'' \<and>
   student_plans (snd (CheckIn_processCheckIn ex_env_late ''KGYM-CHECKIN-s1'' ex_store))
     = [ex_student_plan] \<and>
   length (check_ins (snd (CheckIn_processCheckIn ex_env_late ''KGYM-CHECKIN-s1'' ex_store))) = 1 \<and>
   (CheckIns, UPDATE) \<notin> set (sent ex_env_late (CheckIn_processCheckIn_call ''KGYM-CHECKIN-s1'')
      ex_store)"
proof -
  let ?res = "CheckIn_processCheckIn ex_env_late ''KGYM-CHECKIN-s1'' ex_store"
  have sel: "select_student ex_env_late ''s1'' ex_store =
     (Some (ex_student, [ex_student_plan]), send (Profiles, SELECT) ex_store)"
    by (simp add: select_student_def ex_env_late_def ex_env_def ex_store_def ex_student_def
        ex_student_plan_def Let_def)
  have x: "extract_student_id ''KGYM-CHECKIN-s1'' = Inr ''s1''"
    by (simp add: extract_student_id_def)
  have f: "find (\<lambda>sp. sp_status sp = ''active'') [ex_student_plan] = Some ex_student_plan"
    by (simp add: ex_student_plan_def)
  have t: "\<not> Date_parse (sp_end_date ex_student_plan) < today ex_env_late"
      "\<not> rejects ex_env_late (CheckIns, INSERT)"
    by (simp_all add: ex_student_plan_def ex_end_date_ms ex_env_late_def ex_env_def)
  have r: "fst ?res = CheckedIn \<lparr>lc_student_name = ''Ana'', lc_plan_name = Some ''Mensal''\<rparr>"
    using t by (simp add: CheckIn_processCheckIn_def x sel f insert_check_in_eq)
      (simp add: ex_student_def ex_store_def ex_plan_def ex_student_plan_def)
  have d: "status (Students_getStudentStatus 1707523200002 (Some [ex_student_plan])) = ''expired''"
    by (simp add: Students_getStudentStatus_def f days_until_def ex_student_plan_def
        ex_end_date_ms ceil_div_def msPerDay_def by_days_def)
  note g = C8_check_ins_never_updated [of ex_env_late ex_store "''KGYM-CHECKIN-s1''" None None None]
  from g have u: "(CheckIns, UPDATE) \<notin> set (sent ex_env_late
      (CheckIn_processCheckIn_call ''KGYM-CHECKIN-s1'') ex_store)"
    by (elim conjE allE [of _ "CheckIn_processCheckIn_call ''KGYM-CHECKIN-s1''"])
  from g r have "student_plans (snd ?res) = [ex_student_plan]"
      "length (check_ins (snd ?res)) = 1"
    by (auto simp add: ex_store_def)
  with r d u show ?thesis by simp
qed

text \<open>
  C9. Two runs of the face-recognition step on the same store (and the same state of the
  page and of the connection) give the same result whatever the camera frames are. When
  the page elements are there and the store answers, the result is the id (and name) of the
  first profile, in the order the store returns them, whose face encoding is not null; when
  no profile has one, nobody is recognised.
\<close>

theorem C9_frame_is_ignored:
  "performFaceRecognition e refs_ready ctx_ready frame1 s =
     performFaceRecognition e refs_ready ctx_ready frame2 s \<and>
   (refs_ready \<and> ctx_ready \<and> \<not> rejects e (Profiles, SELECT) \<longrightarrow>
      (\<forall>p. find (\<lambda>p. p_face_encoding p \<noteq> None) (profiles s) = Some p \<longrightarrow>
         fst (performFaceRecognition e refs_ready ctx_ready frame1 s)
           = Recognized (p_id p) (p_full_name p)) \<and>
      (find (\<lambda>p. p_face_encoding p \<noteq> None) (profiles s) = None \<longrightarrow>
         fst (performFaceRecognition e refs_ready ctx_ready frame1 s) = NoFaceRecognized))"
proof (intro conjI impI allI)
  show "performFaceRecognition e refs_ready ctx_ready frame1 s =
     performFaceRecognition e refs_ready ctx_ready frame2 s"
    by (simp add: performFaceRecognition_def)
next
  fix p
  assume ok: "refs_ready \<and> ctx_ready \<and> \<not> rejects e (Profiles, SELECT)"
    and "find (\<lambda>p. p_face_encoding p \<noteq> None) (profiles s) = Some p"
  then obtain rest where "filter (\<lambda>p. p_face_encoding p \<noteq> None) (profiles s) = p # rest"
    using filter_Cons_find by fastforce
  with ok show "fst (performFaceRecognition e refs_ready ctx_ready frame1 s)
           = Recognized (p_id p) (p_full_name p)"
    by (simp add: performFaceRecognition_def Let_def)
next
  assume ok: "refs_ready \<and> ctx_ready \<and> \<not> rejects e (Profiles, SELECT)"
    and "find (\<lambda>p. p_face_encoding p \<noteq> None) (profiles s) = None"
  then have "filter (\<lambda>p. p_face_encoding p \<noteq> None) (profiles s) = []"
    by (intro filter_Nil_find) simp
  with ok show "fst (performFaceRecognition e refs_ready ctx_ready frame1 s) = NoFaceRecognized"
    by (simp add: performFaceRecognition_def Let_def)
qed

theorem C9_frame_is_ignored_witness:
  "fst (performFaceRecognition ex_env True True ''a frame of Caio''
          (ex_store\<lparr>profiles := ex_faces\<rparr>)) = Recognized ''s2'' ''Bia'' \<and>
   performFaceRecognition ex_env True True ''a frame of Caio'' (ex_store\<lparr>profiles := ex_faces\<rparr>) =
   performFaceRecognition ex_env True True ''a frame of Bia'' (ex_store\<lparr>profiles := ex_faces\<rparr>)"
proof -
  let ?s = "ex_store\<lparr>profiles := ex_faces\<rparr>"
  let ?bia = "\<lparr>p_id = ''s2'', p_user_id = ''u2'', p_full_name = ''Bia'', p_cpf = None,
       p_role = ''student'', p_face_encoding = Some ''face_2''\<rparr>"
  have h: "True \<and> True \<and> \<not> rejects ex_env (Profiles, SELECT)" by (simp add: ex_env_def)
  have f: "find (\<lambda>p. p_face_encoding p \<noteq> None) (profiles ?s) = Some ?bia"
    by (simp add: ex_faces_def ex_student_def)
  note t = C9_frame_is_ignored [of ex_env True True "''a frame of Caio''" ?s "''a frame of Bia''"]
  from t have eq: "performFaceRecognition ex_env True True ''a frame of Caio'' ?s =
      performFaceRecognition ex_env True True ''a frame of Bia'' ?s"
    by (rule conjunct1)
  from t [THEN conjunct2, THEN mp, OF h, THEN conjunct1, THEN spec, THEN mp, OF f]
  have r: "fst (performFaceRecognition ex_env True True ''a frame of Caio'' ?s)
      = Recognized ''s2'' ''Bia''"
    by simp
  from r eq show ?thesis by (rule conjI)
qed



end
